theory Spec2Isabelle
  imports Complex_Main
begin

section \<open>Data model of \<^verbatim>\<open>src/App.tsx\<close>\<close>

text \<open>
  The repository is one React component file, \<^verbatim>\<open>src/App.tsx\<close>, and a second copy of it
  whose name is not known (here called part000); they differ in one tween value and two
  null tests. The model follows \<^verbatim>\<open>src/App.tsx\<close>, whose line numbers are cited, and adds
  the timeline callback of the second copy.

  JavaScript numbers are modelled as exact reals: rounding of IEEE doubles is not part of
  the model. A reference (\<^verbatim>\<open>useRef<T>(null)\<close>, a nullable field) is an \<open>option\<close>;
  reading a property through a null reference is the error \<open>NullDereference\<close>.
\<close>

datatype error = NullDereference

definition deref :: "'a option \<Rightarrow> error + 'a" where
  "deref r = (case r of None \<Rightarrow> Inl NullDereference | Some v \<Rightarrow> Inr v)"

fun bindE :: "error + 'a \<Rightarrow> ('a \<Rightarrow> error + 'b) \<Rightarrow> error + 'b" where
  "bindE (Inl e) f = Inl e"
| "bindE (Inr v) f = f v"

record vec3 =
  vx :: real
  vy :: real
  vz :: real

text \<open>
  A colour is the CSS string the source writes, or the blend that the tweening library
  stores strictly inside a colour tween (its spelling is the library's and is not modelled).
\<close>

datatype colour = Css string | Blend string string real

text \<open>A \<^verbatim>\<open>THREE.Object3D\<close> (the group and the wireframe mesh).\<close>

record object3d =
  o_position :: vec3
  o_rotation :: vec3
  o_scale :: vec3

text \<open>The \<^verbatim>\<open>MeshDistortMaterial\<close> fields the source writes.\<close>

record material =
  m_color :: colour
  m_opacity :: real
  m_distort :: real
  m_speed :: real

text \<open>\<^verbatim>\<open>visualParams\<close> and \<^verbatim>\<open>audioParams\<close> (lines 93-99).\<close>

record visualParams =
  vp_color :: colour
  vp_distort :: real
  vp_opacity :: real

record audioParams =
  ap_bpm :: real
  ap_distort :: real
  ap_reverbWet :: real

text \<open>The nodes kept in the global \<^verbatim>\<open>audioSystem\<close> (lines 15-22).\<close>

record membraneSynth =
  ms_volume :: real
  ms_pitchDecay :: real
  ms_octaves :: real

record noiseSynth =
  ns_volume :: real
  ns_noise :: string

record reverbNode =
  rv_decay :: real
  rv_preDelay :: real
  rv_wet :: "real option"

record loopNode =
  lp_interval :: string
  lp_started :: bool

record audioSys =
  heart :: "membraneSynth option"
  blood :: "noiseSynth option"
  distortion :: "real option"
  reverb :: "reverbNode option"
  loop :: "loopNode option"
  isReady :: bool

record transport =
  t_bpm :: real
  t_started :: bool

datatype trigger = HeartAttackRelease string string | BloodAttackRelease string

subsection \<open>Tweens of the scroll timeline\<close>

datatype target = GroupPosition | GroupRotation | WireframeScale | VisualParams | AudioParams

datatype tval = Num real | Col colour

record tween =
  tw_target :: target
  tw_from :: "(string \<times> tval) list option"
  tw_to :: "(string \<times> tval) list"
  tw_duration :: real
  tw_start :: real

text \<open>
  The whole state: the refs and params of \<^verbatim>\<open>Model\<close>, the state of \<^verbatim>\<open>App\<close>, the
  global audio system, the \<^verbatim>\<open>Tone.Transport\<close> singleton, the connections made between
  audio nodes, the notes triggered so far, the camera position given to \<^verbatim>\<open>Canvas\<close>, and
  the timeline built by the \<^verbatim>\<open>useGSAP\<close> callback.
\<close>

record world =
  groupRef :: "object3d option"
  materialRef :: "material option"
  wireframeRef :: "object3d option"
  currentScaleRef :: real
  visualParams :: visualParams
  audioParams :: audioParams
  beatSignalRef :: bool
  started :: bool
  audioSystem :: audioSys
  transport :: transport
  contextRunning :: bool
  connections :: "(string \<times> string) list"
  triggered :: "trigger list"
  cameraPosition :: vec3
  timeline :: "tween list option"

section \<open>The per-frame callback (lines 101-129)\<close>

text \<open>\<^verbatim>\<open>THREE.MathUtils.lerp(x, y, t) = (1 - t) * x + t * y\<close>.\<close>

definition lerp :: "real \<Rightarrow> real \<Rightarrow> real \<Rightarrow> real" where
  "lerp x y t = (1 - t) * x + t * y"

text \<open>\<^verbatim>\<open>Math.PI\<close> is the double nearest to the circle constant.\<close>

definition Math_PI :: real where
  "Math_PI = 884279719003555 / 281474976710656"

definition setScalar :: "real \<Rightarrow> vec3" where
  "setScalar s = \<lparr>vx = s, vy = s, vz = s\<rparr>"

text \<open>Lines 104-107: a pending beat sets the scale value to 1.3 and clears the flag.\<close>

definition frame_beat :: "world \<Rightarrow> world" where
  "frame_beat w =
     (if beatSignalRef w then w\<lparr>currentScaleRef := 13 / 10, beatSignalRef := False\<rparr> else w)"

text \<open>Lines 108-110: the clamped interpolation toward 1, then the write to the group.\<close>

definition frame_scale :: "real \<Rightarrow> world \<Rightarrow> error + world" where
  "frame_scale delta w =
     (let safeDelta = min delta (1 / 10);
          w1 = w\<lparr>currentScaleRef := lerp (currentScaleRef w) 1 (safeDelta * 8)\<rparr>
      in bindE (deref (groupRef w1)) (\<lambda>g.
           Inr (w1\<lparr>groupRef := Some (g\<lparr>o_scale := setScalar (currentScaleRef w1)\<rparr>)\<rparr>)))"

text \<open>Lines 112-117.\<close>

definition frame_material :: "world \<Rightarrow> error + world" where
  "frame_material w =
     (if materialRef w = None then Inr w
      else bindE (deref (materialRef w)) (\<lambda>m.
        Inr (w\<lparr>materialRef := Some (m\<lparr>m_color := vp_color (visualParams w),
                                       m_opacity := vp_opacity (visualParams w),
                                       m_distort := vp_distort (visualParams w),
                                       m_speed := ap_bpm (audioParams w) / 30\<rparr>)\<rparr>)))"

text \<open>Lines 119-122.\<close>

definition frame_wireframe :: "real \<Rightarrow> world \<Rightarrow> error + world" where
  "frame_wireframe elapsed w =
     (if wireframeRef w = None then Inr w
      else bindE (deref (wireframeRef w)) (\<lambda>m.
        Inr (w\<lparr>wireframeRef :=
               Some (m\<lparr>o_rotation := (o_rotation m)\<lparr>vy := - elapsed * (1 / 10),
                                                     vx := elapsed * (1 / 10)\<rparr>\<rparr>)\<rparr>)))"

text \<open>Line 126.\<close>

definition sync_distortion :: "world \<Rightarrow> error + world" where
  "sync_distortion w =
     (if distortion (audioSystem w) = None then Inr w
      else bindE (deref (distortion (audioSystem w))) (\<lambda>d.
        Inr (w\<lparr>audioSystem := (audioSystem w)\<lparr>distortion := Some (ap_distort (audioParams w))\<rparr>\<rparr>)))"

text \<open>Line 127: the reverb and its \<^verbatim>\<open>wet\<close> signal are both tested before the write.\<close>

definition sync_reverb :: "world \<Rightarrow> error + world" where
  "sync_reverb w =
     (case reverb (audioSystem w) of
        None \<Rightarrow> Inr w
      | Some r \<Rightarrow>
          (if rv_wet r = None then Inr w
           else bindE (deref (reverb (audioSystem w))) (\<lambda>r1. bindE (deref (rv_wet r1)) (\<lambda>s.
             Inr (w\<lparr>audioSystem := (audioSystem w)\<lparr>reverb :=
                    Some (r1\<lparr>rv_wet := Some (ap_reverbWet (audioParams w))\<rparr>)\<rparr>\<rparr>)))))"

text \<open>Lines 124-128.\<close>

definition frame_audio :: "world \<Rightarrow> error + world" where
  "frame_audio w =
     (if isReady (audioSystem w)
      then bindE (Inr (w\<lparr>transport := (transport w)\<lparr>t_bpm := ap_bpm (audioParams w)\<rparr>\<rparr>))
             (\<lambda>w1. bindE (sync_distortion w1) sync_reverb)
      else Inr w)"

definition useFrame :: "real \<Rightarrow> real \<Rightarrow> world \<Rightarrow> error + world" where
  "useFrame delta elapsed w =
     (if groupRef w = None then Inr w
      else bindE (bindE (bindE (frame_scale delta (frame_beat w)) frame_material)
                   (frame_wireframe elapsed)) frame_audio)"

section \<open>Audio initialisation and the loop callback (lines 24-85)\<close>

text \<open>
  \<^verbatim>\<open>initAudio\<close> is an async function; its two awaits are modelled as sequential
  composition, so the function is one state transformer. The compressor and the low-pass
  filter are local to it and appear only in the connections.
\<close>

definition initAudio :: "world \<Rightarrow> world" where
  "initAudio w =
     (if isReady (audioSystem w) then w
      else w\<lparr>contextRunning := True,
             connections := connections w @
               [(''compressor'', ''destination''), (''reverb'', ''compressor''),
                (''distortion'', ''reverb''), (''lowPass'', ''distortion''),
                (''heart'', ''lowPass''), (''blood'', ''lowPass'')],
             transport := \<lparr>t_bpm = 60, t_started = True\<rparr>,
             audioSystem :=
               \<lparr>heart = Some \<lparr>ms_volume = 0, ms_pitchDecay = 1 / 10, ms_octaves = 3\<rparr>,
                blood = Some \<lparr>ns_volume = - 15, ns_noise = ''brown''\<rparr>,
                distortion = Some 0,
                reverb = Some \<lparr>rv_decay = 5, rv_preDelay = 1 / 10, rv_wet = Some (3 / 10)\<rparr>,
                loop = Some \<lparr>lp_interval = ''4n'', lp_started = True\<rparr>,
                isReady = True\<rparr>\<rparr>)"

text \<open>Lines 68-72, the body of the \<^verbatim>\<open>Tone.Loop\<close> callback.\<close>

definition loopCallback :: "world \<Rightarrow> world" where
  "loopCallback w =
     w\<lparr>triggered := triggered w @ [HeartAttackRelease ''C0'' ''4n'', BloodAttackRelease ''8n''],
       beatSignalRef := True\<rparr>"

text \<open>The transport runs the callback of a started loop while it is itself started.\<close>

definition loopRunning :: "world \<Rightarrow> bool" where
  "loopRunning w =
     (t_started (transport w) \<and>
      (case loop (audioSystem w) of None \<Rightarrow> False | Some l \<Rightarrow> lp_started l))"

definition tick :: "world \<Rightarrow> world" where
  "tick w = (if loopRunning w then loopCallback w else w)"

section \<open>\<^verbatim>\<open>App\<close>: the start overlay (lines 204-235)\<close>

definition handleStart :: "world \<Rightarrow> world" where
  "handleStart w = (initAudio w)\<lparr>started := True\<rparr>"

definition overlayRendered :: "world \<Rightarrow> bool" where
  "overlayRendered w = (\<not> started w)"

text \<open>The overlay is the only element with \<^verbatim>\<open>onClick={handleStart}\<close>.\<close>

definition click :: "world \<Rightarrow> world" where
  "click w = (if overlayRendered w then handleStart w else w)"

section \<open>The scroll timeline (lines 131-176)\<close>

subsection \<open>Properties a tween reads and writes\<close>

definition getAxis :: "string \<Rightarrow> vec3 \<Rightarrow> real option" where
  "getAxis p v =
     (if p = ''x'' then Some (vx v) else if p = ''y'' then Some (vy v)
      else if p = ''z'' then Some (vz v) else None)"

definition setAxis :: "string \<Rightarrow> real \<Rightarrow> vec3 \<Rightarrow> vec3" where
  "setAxis p r v =
     (if p = ''x'' then v\<lparr>vx := r\<rparr> else if p = ''y'' then v\<lparr>vy := r\<rparr>
      else if p = ''z'' then v\<lparr>vz := r\<rparr> else v)"

definition getVisual :: "string \<Rightarrow> visualParams \<Rightarrow> tval option" where
  "getVisual p v =
     (if p = ''color'' then Some (Col (vp_color v))
      else if p = ''opacity'' then Some (Num (vp_opacity v))
      else if p = ''distort'' then Some (Num (vp_distort v)) else None)"

fun setVisual :: "string \<Rightarrow> tval \<Rightarrow> visualParams \<Rightarrow> visualParams" where
  "setVisual p (Col c) v = (if p = ''color'' then v\<lparr>vp_color := c\<rparr> else v)"
| "setVisual p (Num r) v =
     (if p = ''opacity'' then v\<lparr>vp_opacity := r\<rparr>
      else if p = ''distort'' then v\<lparr>vp_distort := r\<rparr> else v)"

definition getAudio :: "string \<Rightarrow> audioParams \<Rightarrow> tval option" where
  "getAudio p a =
     (if p = ''bpm'' then Some (Num (ap_bpm a))
      else if p = ''distort'' then Some (Num (ap_distort a))
      else if p = ''reverbWet'' then Some (Num (ap_reverbWet a)) else None)"

fun setAudio :: "string \<Rightarrow> tval \<Rightarrow> audioParams \<Rightarrow> audioParams" where
  "setAudio p (Num r) a =
     (if p = ''bpm'' then a\<lparr>ap_bpm := r\<rparr>
      else if p = ''distort'' then a\<lparr>ap_distort := r\<rparr>
      else if p = ''reverbWet'' then a\<lparr>ap_reverbWet := r\<rparr> else a)"
| "setAudio p (Col c) a = a"

fun getProp :: "target \<Rightarrow> string \<Rightarrow> world \<Rightarrow> tval option" where
  "getProp GroupPosition p w =
     (case groupRef w of None \<Rightarrow> None | Some g \<Rightarrow> map_option Num (getAxis p (o_position g)))"
| "getProp GroupRotation p w =
     (case groupRef w of None \<Rightarrow> None | Some g \<Rightarrow> map_option Num (getAxis p (o_rotation g)))"
| "getProp WireframeScale p w =
     (case wireframeRef w of None \<Rightarrow> None | Some m \<Rightarrow> map_option Num (getAxis p (o_scale m)))"
| "getProp VisualParams p w = getVisual p (visualParams w)"
| "getProp AudioParams p w = getAudio p (audioParams w)"

fun setProp :: "target \<Rightarrow> string \<Rightarrow> tval \<Rightarrow> world \<Rightarrow> world" where
  "setProp GroupPosition p (Num r) w =
     w\<lparr>groupRef := map_option (\<lambda>g. g\<lparr>o_position := setAxis p r (o_position g)\<rparr>) (groupRef w)\<rparr>"
| "setProp GroupRotation p (Num r) w =
     w\<lparr>groupRef := map_option (\<lambda>g. g\<lparr>o_rotation := setAxis p r (o_rotation g)\<rparr>) (groupRef w)\<rparr>"
| "setProp WireframeScale p (Num r) w =
     w\<lparr>wireframeRef :=
         map_option (\<lambda>m. m\<lparr>o_scale := setAxis p r (o_scale m)\<rparr>) (wireframeRef w)\<rparr>"
| "setProp VisualParams p v w = w\<lparr>visualParams := setVisual p v (visualParams w)\<rparr>"
| "setProp AudioParams p v w = w\<lparr>audioParams := setAudio p v (audioParams w)\<rparr>"
| "setProp t p (Col c) w = w"

fun setProps :: "target \<Rightarrow> (string \<times> tval) list \<Rightarrow> world \<Rightarrow> world" where
  "setProps t [] w = w"
| "setProps t ((p, v) # vars) w = setProps t vars (setProp t p v w)"

fun currentProps :: "target \<Rightarrow> string list \<Rightarrow> world \<Rightarrow> (string \<times> tval) list" where
  "currentProps t [] w = []"
| "currentProps t (p # ps) w =
     (case getProp t p w of None \<Rightarrow> currentProps t ps w
      | Some v \<Rightarrow> (p, v) # currentProps t ps w)"

subsection \<open>Building the timeline\<close>

text \<open>
  The position parameter of \<^verbatim>\<open>tl.to\<close>: absent, the tween is appended at the end of the
  timeline; \<^verbatim>\<open>'<'\<close>, it starts where the most recently added tween starts.
\<close>

datatype position = Sequenced | PrevStart

fun tl_end :: "tween list \<Rightarrow> real" where
  "tl_end [] = 0"
| "tl_end (tw # tws) = max (tw_start tw + tw_duration tw) (tl_end tws)"

definition tl_place :: "tween list \<Rightarrow> position \<Rightarrow> real" where
  "tl_place tln pos =
     (case pos of Sequenced \<Rightarrow> tl_end tln
      | PrevStart \<Rightarrow> (if tln = [] then 0 else tw_start (last tln)))"

definition tl_to ::
  "tween list \<Rightarrow> target \<Rightarrow> (string \<times> tval) list \<Rightarrow> real \<Rightarrow> position \<Rightarrow> tween list" where
  "tl_to tln t vars dur pos =
     tln @ [\<lparr>tw_target = t, tw_from = None, tw_to = vars, tw_duration = dur,
            tw_start = tl_place tln pos\<rparr>]"

definition tl_fromTo ::
  "tween list \<Rightarrow> target \<Rightarrow> (string \<times> tval) list \<Rightarrow> (string \<times> tval) list \<Rightarrow> real \<Rightarrow>
   position \<Rightarrow> tween list" where
  "tl_fromTo tln t fromVars toVars dur pos =
     tln @ [\<lparr>tw_target = t, tw_from = Some fromVars, tw_to = toVars, tw_duration = dur,
            tw_start = tl_place tln pos\<rparr>]"

text \<open>
  Each stage reads \<^verbatim>\<open>groupRef.current\<close> or \<^verbatim>\<open>wireframeRef.current\<close> to name a target:
  a read through a null ref is the error.
\<close>

definition stage1 :: "world \<Rightarrow> tween list \<Rightarrow> error + tween list" where
  "stage1 w tln =
     bindE (deref (groupRef w)) (\<lambda>g.
       let tl1 = tl_to tln GroupPosition [(''z'', Num (3 / 2)), (''x'', Num (1 / 2))] 1 Sequenced;
           tl2 = tl_fromTo tl1 VisualParams
                   [(''color'', Col (Css ''#ffffff'')), (''opacity'', Num (1 / 2)),
                    (''distort'', Num (3 / 10))]
                   [(''color'', Col (Css ''#4ecdc4'')), (''opacity'', Num (8 / 10)),
                    (''distort'', Num (8 / 10))] 1 PrevStart
       in bindE (deref (groupRef w)) (\<lambda>g'.
            let tl3 = tl_to tl2 GroupRotation [(''y'', Num Math_PI)] 1 PrevStart
            in Inr (tl_to tl3 AudioParams [(''bpm'', Num 100)] 1 PrevStart)))"

definition stage2 :: "world \<Rightarrow> tween list \<Rightarrow> error + tween list" where
  "stage2 w tln =
     bindE (deref (groupRef w)) (\<lambda>g.
       let tl1 = tl_to tln GroupPosition [(''x'', Num (- (3 / 2)))] 1 Sequenced;
           tl2 = tl_to tl1 VisualParams
                   [(''distort'', Num (3 / 2)), (''color'', Col (Css ''#ff6b6b'')),
                    (''opacity'', Num (95 / 100))] 1 PrevStart
       in bindE (deref (wireframeRef w)) (\<lambda>m.
            let tl3 = tl_to tl2 WireframeScale
                        [(''x'', Num (3 / 2)), (''y'', Num (3 / 2)), (''z'', Num (3 / 2))]
                        1 PrevStart
            in Inr (tl_to tl3 AudioParams
                      [(''bpm'', Num 180), (''distort'', Num (8 / 10))] 1 PrevStart)))"

definition stage3 :: "world \<Rightarrow> tween list \<Rightarrow> error + tween list" where
  "stage3 w tln =
     bindE (deref (groupRef w)) (\<lambda>g.
       let tl1 = tl_to tln GroupPosition [(''x'', Num 0), (''z'', Num 0)] 1 Sequenced;
           tl2 = tl_to tl1 VisualParams
                   [(''distort'', Num 0), (''color'', Col (Css ''#ffffff'')),
                    (''opacity'', Num (3 / 10))] 1 PrevStart
       in bindE (deref (wireframeRef w)) (\<lambda>m.
            let tl3 = tl_to tl2 WireframeScale
                        [(''x'', Num (105 / 100)), (''y'', Num (105 / 100)),
                         (''z'', Num (105 / 100))] 1 PrevStart
            in Inr (tl_to tl3 AudioParams
                      [(''bpm'', Num 30), (''distort'', Num 0), (''reverbWet'', Num 1)]
                      1 PrevStart)))"

text \<open>
  A \<^verbatim>\<open>to\<close> tween starts from the values its target has when the playhead first reaches
  it. The timeline is scrubbed from 0 and the tweens of one property do not overlap, so
  these are the values left by the tweens before it; \<open>bake\<close> records them.
\<close>

fun bake :: "tween list \<Rightarrow> world \<Rightarrow> tween list" where
  "bake [] w = []"
| "bake (tw # tws) w =
     (case tw_from tw of
        Some f \<Rightarrow> tw
      | None \<Rightarrow> tw\<lparr>tw_from := Some (currentProps (tw_target tw) (map fst (tw_to tw)) w)\<rparr>)
     # bake tws (setProps (tw_target tw) (tw_to tw) w)"

text \<open>The callback passed to \<^verbatim>\<open>useGSAP\<close> in \<^verbatim>\<open>src/App.tsx\<close> (line 133 is its guard).\<close>

definition useGSAP_callback :: "world \<Rightarrow> error + world" where
  "useGSAP_callback w =
     (if groupRef w = None \<or> wireframeRef w = None then Inr w
      else bindE (bindE (bindE (stage1 w []) (stage2 w)) (stage3 w)) (\<lambda>tln.
             Inr (w\<lparr>timeline := Some (bake tln w)\<rparr>)))"

text \<open>
  The same callback in the second source file of the repository (the unnamed part): its
  second stage ends the visual distortion at 1.0, and its guard tests the group only.
\<close>

definition stage2_part000 :: "world \<Rightarrow> tween list \<Rightarrow> error + tween list" where
  "stage2_part000 w tln =
     bindE (deref (groupRef w)) (\<lambda>g.
       let tl1 = tl_to tln GroupPosition [(''x'', Num (- (3 / 2)))] 1 Sequenced;
           tl2 = tl_to tl1 VisualParams
                   [(''distort'', Num 1), (''color'', Col (Css ''#ff6b6b'')),
                    (''opacity'', Num (95 / 100))] 1 PrevStart
       in bindE (deref (wireframeRef w)) (\<lambda>m.
            let tl3 = tl_to tl2 WireframeScale
                        [(''x'', Num (3 / 2)), (''y'', Num (3 / 2)), (''z'', Num (3 / 2))]
                        1 PrevStart
            in Inr (tl_to tl3 AudioParams
                      [(''bpm'', Num 180), (''distort'', Num (8 / 10))] 1 PrevStart)))"

definition useGSAP_callback_part000 :: "world \<Rightarrow> error + world" where
  "useGSAP_callback_part000 w =
     (if groupRef w = None then Inr w
      else bindE (bindE (bindE (stage1 w []) (stage2_part000 w)) (stage3 w)) (\<lambda>tln.
             Inr (w\<lparr>timeline := Some (bake tln w)\<rparr>)))"

subsection \<open>Scrubbing the timeline\<close>

text \<open>
  The tweening library is not part of the repository. Its interpolation (ease and blending
  of numbers and colour strings) is the parameter \<open>mix\<close>: \<open>mix r a b\<close> is the value at
  ratio \<open>r\<close> of a tween from \<open>a\<close> to \<open>b\<close>. What the library documents of it is used as a
  hypothesis where needed: ratio 0 gives \<open>a\<close> and ratio 1 gives \<open>b\<close>. Moving the playhead
  to \<open>T\<close> puts every tween back to its start, last tween first, then renders the tweens the
  playhead has reached, first tween first. The one-second smoothing of \<^verbatim>\<open>scrub: 1\<close> is
  real time and is not modelled: the playhead is where the scroll fraction puts it.
\<close>

type_synonym mixer = "real \<Rightarrow> tval \<Rightarrow> tval \<Rightarrow> tval"

definition progress :: "real \<Rightarrow> tween \<Rightarrow> real" where
  "progress T tw =
     (if tw_duration tw \<le> 0 then 1
      else min 1 (max 0 ((T - tw_start tw) / tw_duration tw)))"

fun tweenValues ::
  "mixer \<Rightarrow> real \<Rightarrow> (string \<times> tval) list \<Rightarrow> (string \<times> tval) list \<Rightarrow> (string \<times> tval) list"
  where
  "tweenValues mix r f [] = []"
| "tweenValues mix r f ((p, e) # vars) =
     (p, case map_of f p of None \<Rightarrow> e | Some s \<Rightarrow> mix r s e) # tweenValues mix r f vars"

definition forwardTween :: "mixer \<Rightarrow> real \<Rightarrow> tween \<Rightarrow> world \<Rightarrow> world" where
  "forwardTween mix T tw w =
     (if T < tw_start tw then w
      else case tw_from tw of
             None \<Rightarrow> setProps (tw_target tw) (tw_to tw) w
           | Some f \<Rightarrow> setProps (tw_target tw) (tweenValues mix (progress T tw) f (tw_to tw)) w)"

definition rewindTween :: "tween \<Rightarrow> world \<Rightarrow> world" where
  "rewindTween tw w = (case tw_from tw of None \<Rightarrow> w | Some f \<Rightarrow> setProps (tw_target tw) f w)"

definition render :: "mixer \<Rightarrow> real \<Rightarrow> tween list \<Rightarrow> world \<Rightarrow> world" where
  "render mix T tln w = fold (forwardTween mix T) tln (fold rewindTween (rev tln) w)"

text \<open>The scroll fraction \<open>p\<close> of the page puts the playhead at \<open>p\<close> of the timeline.\<close>

definition scrollTo :: "mixer \<Rightarrow> real \<Rightarrow> world \<Rightarrow> world" where
  "scrollTo mix p w =
     (case timeline w of
        None \<Rightarrow> w
      | Some tln \<Rightarrow> render mix (min 1 (max 0 p) * tl_end tln) tln w)"

text \<open>A mixer with the documented end points, linear in between.\<close>

fun linearMix :: mixer where
  "linearMix r (Num a) (Num b) = Num (a + (b - a) * r)"
| "linearMix r (Col (Css a)) (Col (Css b)) =
     Col (if r = 0 then Css a else if r = 1 then Css b else Blend a b r)"
| "linearMix r a b = (if r = 0 then a else b)"

section \<open>The running page\<close>

text \<open>
  The state before React mounts \<^verbatim>\<open>App\<close>: every ref is null, \<^verbatim>\<open>currentScaleRef\<close> is 1,
  the params have the values of lines 93-99, the audio system those of lines 15-22, the
  camera is at \<^verbatim>\<open>[0, 0, 5]\<close> (line 241). The transport of the synthesiser library starts
  stopped, at its default tempo.
\<close>

definition initial :: world where
  "initial =
     \<lparr>groupRef = None, materialRef = None, wireframeRef = None, currentScaleRef = 1,
      visualParams = \<lparr>vp_color = Css ''#ffffff'', vp_distort = 3 / 10, vp_opacity = 1 / 2\<rparr>,
      audioParams = \<lparr>ap_bpm = 60, ap_distort = 0, ap_reverbWet = 3 / 10\<rparr>,
      beatSignalRef = False, started = False,
      audioSystem = \<lparr>heart = None, blood = None, distortion = None, reverb = None,
                     loop = None, isReady = False\<rparr>,
      transport = \<lparr>t_bpm = 120, t_started = False\<rparr>,
      contextRunning = False, connections = [], triggered = [],
      cameraPosition = \<lparr>vx = 0, vy = 0, vz = 5\<rparr>,
      timeline = None\<rparr>"

text \<open>
  Mounting \<^verbatim>\<open>Model\<close> attaches the three refs to the objects of the JSX (lines 178-201)
  and then runs the \<^verbatim>\<open>useGSAP\<close> callback.
\<close>

definition attachRefs :: "world \<Rightarrow> world" where
  "attachRefs w =
     w\<lparr>groupRef := Some \<lparr>o_position = setScalar 0, o_rotation = setScalar 0,
                          o_scale = setScalar 1\<rparr>,
       materialRef := Some \<lparr>m_color = Css ''#ffffff'', m_opacity = 1 / 2, m_distort = 3 / 10,
                             m_speed = 2\<rparr>,
       wireframeRef := Some \<lparr>o_position = setScalar 0, o_rotation = setScalar 0,
                              o_scale = setScalar (105 / 100)\<rparr>\<rparr>"

definition mount :: "world \<Rightarrow> error + world" where
  "mount w = (if groupRef w = None then useGSAP_callback (attachRefs w) else Inr w)"

definition mount_part000 :: "world \<Rightarrow> error + world" where
  "mount_part000 w =
     (if groupRef w = None then useGSAP_callback_part000 (attachRefs w) else Inr w)"

text \<open>
  What happens to the page: it is mounted, the overlay is clicked, the audio loop ticks a
  quarter note, a frame is rendered (with the seconds since the last frame and the
  elapsed time of the clock), the page is scrolled to a fraction of its height.
\<close>

datatype event = Mount | Click | Tick | Frame real real | Scroll real

fun step :: "mixer \<Rightarrow> event \<Rightarrow> world \<Rightarrow> error + world" where
  "step mix Mount w = mount w"
| "step mix Click w = Inr (click w)"
| "step mix Tick w = Inr (tick w)"
| "step mix (Frame delta elapsed) w = useFrame delta elapsed w"
| "step mix (Scroll p) w = Inr (scrollTo mix p w)"

fun run :: "mixer \<Rightarrow> event list \<Rightarrow> world \<Rightarrow> error + world" where
  "run mix [] w = Inr w"
| "run mix (e # es) w = bindE (step mix e w) (run mix es)"

text \<open>The seconds since the last frame are never negative.\<close>

fun validEvent :: "event \<Rightarrow> bool" where
  "validEvent (Frame delta elapsed) = (0 \<le> delta)"
| "validEvent e = True"

section \<open>Auxiliary notions for the statements\<close>

text \<open>The page once it is mounted, with either version of the timeline callback.\<close>

definition mounted :: world where
  "mounted = (case mount initial of Inr w \<Rightarrow> w | Inl e \<Rightarrow> initial)"

definition mounted_part000 :: world where
  "mounted_part000 = (case mount_part000 initial of Inr w \<Rightarrow> w | Inl e \<Rightarrow> initial)"

text \<open>The properties a timeline tweens, each with the object that holds it.\<close>

fun tweenedProps :: "tween list \<Rightarrow> (target \<times> string) list" where
  "tweenedProps [] = []"
| "tweenedProps (tw # tws) = map (\<lambda>pv. (tw_target tw, fst pv)) (tw_to tw) @ tweenedProps tws"

text \<open>
  \<open>untouched w w'\<close>: the two states differ at most in what a tween can write (the group,
  the wireframe and the two param objects).
\<close>

definition untouched :: "world \<Rightarrow> world \<Rightarrow> bool" where
  "untouched w w' =
     (w'\<lparr>groupRef := groupRef w, wireframeRef := wireframeRef w,
         visualParams := visualParams w, audioParams := audioParams w\<rparr> = w)"

text \<open>The audio side of the state is as it was before any click.\<close>

definition audioSilent :: "world \<Rightarrow> bool" where
  "audioSilent w =
     (transport w = transport initial \<and> audioSystem w = audioSystem initial \<and>
      connections w = [] \<and> triggered w = [] \<and> \<not> contextRunning w \<and> \<not> started w)"

text \<open>The timeline that mounting the page builds.\<close>

definition appTimeline :: "tween list" where
  "appTimeline = (case timeline mounted of Some tln \<Rightarrow> tln | None \<Rightarrow> [])"

section \<open>Facts about the per-frame callback\<close>

lemma frame_beat_fields:
  "groupRef (frame_beat w) = groupRef w \<and> materialRef (frame_beat w) = materialRef w \<and>
   wireframeRef (frame_beat w) = wireframeRef w \<and>
   visualParams (frame_beat w) = visualParams w \<and> audioParams (frame_beat w) = audioParams w \<and>
   started (frame_beat w) = started w \<and> audioSystem (frame_beat w) = audioSystem w \<and>
   transport (frame_beat w) = transport w \<and> contextRunning (frame_beat w) = contextRunning w \<and>
   connections (frame_beat w) = connections w \<and> triggered (frame_beat w) = triggered w \<and>
   cameraPosition (frame_beat w) = cameraPosition w \<and> timeline (frame_beat w) = timeline w \<and>
   beatSignalRef (frame_beat w) = False \<and>
   currentScaleRef (frame_beat w) = (if beatSignalRef w then 13 / 10 else currentScaleRef w)"
  by (simp add: frame_beat_def)

lemma frame_scale_fields:
  assumes "frame_scale d w = Inr w'" and "groupRef w = Some g"
  shows "materialRef w' = materialRef w \<and> wireframeRef w' = wireframeRef w \<and>
   visualParams w' = visualParams w \<and> audioParams w' = audioParams w \<and>
   started w' = started w \<and> audioSystem w' = audioSystem w \<and>
   transport w' = transport w \<and> contextRunning w' = contextRunning w \<and>
   connections w' = connections w \<and> triggered w' = triggered w \<and>
   cameraPosition w' = cameraPosition w \<and> timeline w' = timeline w \<and>
   beatSignalRef w' = beatSignalRef w \<and>
   currentScaleRef w' = lerp (currentScaleRef w) 1 (min d (1 / 10) * 8) \<and>
   groupRef w' = Some (g\<lparr>o_scale := setScalar (lerp (currentScaleRef w) 1 (min d (1 / 10) * 8))\<rparr>)"
  using assms by (auto simp: frame_scale_def deref_def Let_def)

lemma frame_material_fields:
  assumes "frame_material w = Inr w'"
  shows "groupRef w' = groupRef w \<and> wireframeRef w' = wireframeRef w \<and>
   visualParams w' = visualParams w \<and> audioParams w' = audioParams w \<and>
   started w' = started w \<and> audioSystem w' = audioSystem w \<and>
   transport w' = transport w \<and> contextRunning w' = contextRunning w \<and>
   connections w' = connections w \<and> triggered w' = triggered w \<and>
   cameraPosition w' = cameraPosition w \<and> timeline w' = timeline w \<and>
   beatSignalRef w' = beatSignalRef w \<and> currentScaleRef w' = currentScaleRef w \<and>
   materialRef w' =
     map_option (\<lambda>m. m\<lparr>m_color := vp_color (visualParams w),
                        m_opacity := vp_opacity (visualParams w),
                        m_distort := vp_distort (visualParams w),
                        m_speed := ap_bpm (audioParams w) / 30\<rparr>) (materialRef w)"
  using assms by (cases "materialRef w") (auto simp: frame_material_def deref_def)

lemma frame_wireframe_fields:
  assumes "frame_wireframe e w = Inr w'"
  shows "groupRef w' = groupRef w \<and> materialRef w' = materialRef w \<and>
   visualParams w' = visualParams w \<and> audioParams w' = audioParams w \<and>
   started w' = started w \<and> audioSystem w' = audioSystem w \<and>
   transport w' = transport w \<and> contextRunning w' = contextRunning w \<and>
   connections w' = connections w \<and> triggered w' = triggered w \<and>
   cameraPosition w' = cameraPosition w \<and> timeline w' = timeline w \<and>
   beatSignalRef w' = beatSignalRef w \<and> currentScaleRef w' = currentScaleRef w \<and>
   wireframeRef w' =
     map_option (\<lambda>m. m\<lparr>o_rotation := (o_rotation m)\<lparr>vy := - e * (1 / 10),
                                                        vx := e * (1 / 10)\<rparr>\<rparr>) (wireframeRef w)"
  using assms by (cases "wireframeRef w") (auto simp: frame_wireframe_def deref_def)

lemma sync_distortion_eq:
  "sync_distortion w =
     Inr (w\<lparr>audioSystem := (audioSystem w)\<lparr>distortion :=
            map_option (\<lambda>x. ap_distort (audioParams w)) (distortion (audioSystem w))\<rparr>\<rparr>)"
  by (cases "distortion (audioSystem w)") (simp_all add: sync_distortion_def deref_def)

lemma sync_reverb_eq:
  "sync_reverb w =
     Inr (w\<lparr>audioSystem := (audioSystem w)\<lparr>reverb :=
            map_option (\<lambda>r. r\<lparr>rv_wet :=
                map_option (\<lambda>x. ap_reverbWet (audioParams w)) (rv_wet r)\<rparr>)
              (reverb (audioSystem w))\<rparr>\<rparr>)"
proof (cases "reverb (audioSystem w)")
  case None
  then show ?thesis by (simp add: sync_reverb_def)
next
  case (Some r)
  then show ?thesis by (cases "rv_wet r") (simp_all add: sync_reverb_def deref_def)
qed

lemma frame_audio_fields:
  assumes "frame_audio w = Inr w'"
  shows "groupRef w' = groupRef w \<and> materialRef w' = materialRef w \<and>
   wireframeRef w' = wireframeRef w \<and>
   visualParams w' = visualParams w \<and> audioParams w' = audioParams w \<and>
   started w' = started w \<and> contextRunning w' = contextRunning w \<and>
   connections w' = connections w \<and> triggered w' = triggered w \<and>
   cameraPosition w' = cameraPosition w \<and> timeline w' = timeline w \<and>
   beatSignalRef w' = beatSignalRef w \<and> currentScaleRef w' = currentScaleRef w \<and>
   transport w' =
     (if isReady (audioSystem w) then (transport w)\<lparr>t_bpm := ap_bpm (audioParams w)\<rparr>
      else transport w) \<and>
   audioSystem w' =
     (if isReady (audioSystem w)
      then (audioSystem w)
             \<lparr>distortion :=
                map_option (\<lambda>x. ap_distort (audioParams w)) (distortion (audioSystem w)),
              reverb :=
                map_option (\<lambda>r. r\<lparr>rv_wet :=
                    map_option (\<lambda>x. ap_reverbWet (audioParams w)) (rv_wet r)\<rparr>)
                  (reverb (audioSystem w))\<rparr>
      else audioSystem w)"
  using assms by (cases "isReady (audioSystem w)")
    (auto simp: frame_audio_def sync_distortion_eq sync_reverb_eq)

lemma useFrame_unmounted: "groupRef w = None \<Longrightarrow> useFrame d e w = Inr w"
  by (simp add: useFrame_def)

lemma frame_material_total: "\<exists>w'. frame_material w = Inr w'"
  by (cases "materialRef w") (simp_all add: frame_material_def deref_def)

lemma frame_wireframe_total: "\<exists>w'. frame_wireframe e w = Inr w'"
  by (cases "wireframeRef w") (simp_all add: frame_wireframe_def deref_def)

lemma frame_audio_total: "\<exists>w'. frame_audio w = Inr w'"
  by (simp add: frame_audio_def sync_distortion_eq sync_reverb_eq)

lemma frame_scale_total: "groupRef w = Some g \<Longrightarrow> \<exists>w'. frame_scale d w = Inr w'"
  by (simp add: frame_scale_def deref_def Let_def)

lemma useFrame_mounted:
  assumes "groupRef w = Some g"
  shows "\<exists>w1 w2 w3 w4. frame_scale d (frame_beat w) = Inr w1 \<and> frame_material w1 = Inr w2 \<and>
           frame_wireframe e w2 = Inr w3 \<and> frame_audio w3 = Inr w4 \<and>
           useFrame d e w = Inr w4"
proof -
  have g: "groupRef (frame_beat w) = Some g" using assms by (simp add: frame_beat_fields)
  obtain w1 where 1: "frame_scale d (frame_beat w) = Inr w1"
    using frame_scale_total[OF g] by blast
  obtain w2 where 2: "frame_material w1 = Inr w2" using frame_material_total by blast
  obtain w3 where 3: "frame_wireframe e w2 = Inr w3" using frame_wireframe_total by blast
  obtain w4 where 4: "frame_audio w3 = Inr w4" using frame_audio_total by blast
  have "useFrame d e w = Inr w4" using assms 1 2 3 4 by (simp add: useFrame_def)
  with 1 2 3 4 show ?thesis by blast
qed

lemma useFrame_total: "\<exists>w'. useFrame d e w = Inr w'"
proof (cases "groupRef w")
  case None
  then show ?thesis by (simp add: useFrame_unmounted)
next
  case (Some g)
  from useFrame_mounted[OF Some] show ?thesis by blast
qed

text \<open>Every field of the state after a frame that finds the group attached.\<close>

lemma useFrame_fields:
  assumes g: "groupRef w = Some g" and r: "useFrame d e w = Inr w'"
  shows "currentScaleRef w' =
       lerp (if beatSignalRef w then 13 / 10 else currentScaleRef w) 1 (min d (1 / 10) * 8)"
    and "beatSignalRef w' = False"
    and "groupRef w' = Some (g\<lparr>o_scale := setScalar (currentScaleRef w')\<rparr>)"
    and "materialRef w' =
           map_option (\<lambda>m. m\<lparr>m_color := vp_color (visualParams w),
                              m_opacity := vp_opacity (visualParams w),
                              m_distort := vp_distort (visualParams w),
                              m_speed := ap_bpm (audioParams w) / 30\<rparr>) (materialRef w)"
    and "wireframeRef w' =
           map_option (\<lambda>m. m\<lparr>o_rotation := (o_rotation m)\<lparr>vy := - e * (1 / 10),
                                                        vx := e * (1 / 10)\<rparr>\<rparr>) (wireframeRef w)"
    and "transport w' =
           (if isReady (audioSystem w) then (transport w)\<lparr>t_bpm := ap_bpm (audioParams w)\<rparr>
            else transport w)"
    and "audioSystem w' =
           (if isReady (audioSystem w)
            then (audioSystem w)
                   \<lparr>distortion :=
                      map_option (\<lambda>x. ap_distort (audioParams w)) (distortion (audioSystem w)),
                    reverb :=
                      map_option (\<lambda>r. r\<lparr>rv_wet :=
                          map_option (\<lambda>x. ap_reverbWet (audioParams w)) (rv_wet r)\<rparr>)
                        (reverb (audioSystem w))\<rparr>
            else audioSystem w)"
    and "visualParams w' = visualParams w" and "audioParams w' = audioParams w"
    and "started w' = started w" and "contextRunning w' = contextRunning w"
    and "connections w' = connections w" and "triggered w' = triggered w"
    and "cameraPosition w' = cameraPosition w" and "timeline w' = timeline w"
proof -
  have g': "groupRef (frame_beat w) = Some g" using g by (simp add: frame_beat_fields)
  from useFrame_mounted[OF g, of d e] obtain w1 w2 w3 w4 where
    1: "frame_scale d (frame_beat w) = Inr w1" and 2: "frame_material w1 = Inr w2" and
    3: "frame_wireframe e w2 = Inr w3" and 4: "frame_audio w3 = Inr w4" and
    5: "useFrame d e w = Inr w4" by blast
  have eq: "w' = w4" using r 5 by simp
  note f = frame_audio_fields[OF 4] frame_wireframe_fields[OF 3] frame_material_fields[OF 2]
    frame_scale_fields[OF 1 g'] frame_beat_fields[of w]
  show "currentScaleRef w' =
       lerp (if beatSignalRef w then 13 / 10 else currentScaleRef w) 1 (min d (1 / 10) * 8)"
    unfolding eq using f by simp
  show "beatSignalRef w' = False" unfolding eq using f by simp
  show "groupRef w' = Some (g\<lparr>o_scale := setScalar (currentScaleRef w')\<rparr>)"
    unfolding eq using f by simp
  show "materialRef w' =
           map_option (\<lambda>m. m\<lparr>m_color := vp_color (visualParams w),
                              m_opacity := vp_opacity (visualParams w),
                              m_distort := vp_distort (visualParams w),
                              m_speed := ap_bpm (audioParams w) / 30\<rparr>) (materialRef w)"
    unfolding eq using f by simp
  show "wireframeRef w' =
           map_option (\<lambda>m. m\<lparr>o_rotation := (o_rotation m)\<lparr>vy := - e * (1 / 10),
                                                        vx := e * (1 / 10)\<rparr>\<rparr>) (wireframeRef w)"
    unfolding eq using f by simp
  show "transport w' =
           (if isReady (audioSystem w) then (transport w)\<lparr>t_bpm := ap_bpm (audioParams w)\<rparr>
            else transport w)"
    unfolding eq using f by simp
  show "audioSystem w' =
           (if isReady (audioSystem w)
            then (audioSystem w)
                   \<lparr>distortion :=
                      map_option (\<lambda>x. ap_distort (audioParams w)) (distortion (audioSystem w)),
                    reverb :=
                      map_option (\<lambda>r. r\<lparr>rv_wet :=
                          map_option (\<lambda>x. ap_reverbWet (audioParams w)) (rv_wet r)\<rparr>)
                        (reverb (audioSystem w))\<rparr>
            else audioSystem w)"
    unfolding eq using f by simp
  show "visualParams w' = visualParams w" unfolding eq using f by simp
  show "audioParams w' = audioParams w" unfolding eq using f by simp
  show "started w' = started w" unfolding eq using f by simp
  show "contextRunning w' = contextRunning w" unfolding eq using f by simp
  show "connections w' = connections w" unfolding eq using f by simp
  show "triggered w' = triggered w" unfolding eq using f by simp
  show "cameraPosition w' = cameraPosition w" unfolding eq using f by simp
  show "timeline w' = timeline w" unfolding eq using f by simp
qed

lemma untouched_refl: "untouched w w"
  by (simp add: untouched_def)

lemma untouched_trans: "untouched a b \<Longrightarrow> untouched b c \<Longrightarrow> untouched a c"
  unfolding untouched_def by (cases a; cases b; cases c) simp

lemma untouched_fields:
  "untouched w w' \<Longrightarrow>
     materialRef w' = materialRef w \<and> currentScaleRef w' = currentScaleRef w \<and>
     beatSignalRef w' = beatSignalRef w \<and> started w' = started w \<and>
     audioSystem w' = audioSystem w \<and> transport w' = transport w \<and>
     contextRunning w' = contextRunning w \<and> connections w' = connections w \<and>
     triggered w' = triggered w \<and> cameraPosition w' = cameraPosition w \<and>
     timeline w' = timeline w"
  unfolding untouched_def by (cases w; cases w') simp

lemma setProp_untouched: "untouched w (setProp t p v w)"
  by (cases "(t, p, v, w)" rule: setProp.cases) (simp_all add: untouched_def)

lemma setProps_untouched: "untouched w (setProps t vars w)"
proof (induction vars arbitrary: w)
  case Nil
  show ?case by (simp add: untouched_refl)
next
  case (Cons a vars)
  obtain p v where a: "a = (p, v)" by (cases a)
  show ?case unfolding a setProps.simps
    using untouched_trans[OF setProp_untouched Cons.IH] .
qed

lemma forwardTween_untouched: "untouched w (forwardTween mix T tw w)"
  by (simp add: forwardTween_def untouched_refl setProps_untouched split: option.split)

lemma rewindTween_untouched: "untouched w (rewindTween tw w)"
  by (simp add: rewindTween_def untouched_refl setProps_untouched split: option.split)

lemma fold_untouched:
  assumes "\<And>x v. untouched v (f x v)"
  shows "untouched w (fold f xs w)"
proof (induction xs arbitrary: w)
  case Nil
  show ?case by (simp add: untouched_refl)
next
  case (Cons x xs)
  show ?case using untouched_trans[OF assms Cons.IH] by simp
qed

lemma render_untouched: "untouched w (render mix T tln w)"
  unfolding render_def
  by (rule untouched_trans[OF fold_untouched fold_untouched])
     (rule rewindTween_untouched, rule forwardTween_untouched)

lemma scrollTo_untouched: "untouched w (scrollTo mix p w)"
  by (simp add: scrollTo_def untouched_refl render_untouched split: option.split)

section \<open>Facts about mounting and running the page\<close>

lemma bindE_Inr: "bindE m f = Inr y \<longleftrightarrow> (\<exists>x. m = Inr x \<and> f x = Inr y)"
  by (cases m) auto

lemma stage1_total:
  "groupRef w = Some g \<Longrightarrow> \<exists>r. stage1 w tln = Inr r"
  by (simp add: stage1_def deref_def Let_def)

lemma stage2_total:
  "groupRef w = Some g \<Longrightarrow> wireframeRef w = Some m \<Longrightarrow> \<exists>r. stage2 w tln = Inr r"
  by (simp add: stage2_def deref_def Let_def)

lemma stage3_total:
  "groupRef w = Some g \<Longrightarrow> wireframeRef w = Some m \<Longrightarrow> \<exists>r. stage3 w tln = Inr r"
  by (simp add: stage3_def deref_def Let_def)

lemma useGSAP_callback_result:
  "\<exists>t. useGSAP_callback w = Inr (w\<lparr>timeline := t\<rparr>)"
proof (cases "groupRef w = None \<or> wireframeRef w = None")
  case True
  then have "useGSAP_callback w = Inr (w\<lparr>timeline := timeline w\<rparr>)"
    by (simp add: useGSAP_callback_def)
  then show ?thesis by blast
next
  case False
  then obtain g m where gm: "groupRef w = Some g" "wireframeRef w = Some m" by auto
  obtain r1 where 1: "stage1 w [] = Inr r1" using stage1_total[OF gm(1)] by blast
  obtain r2 where 2: "stage2 w r1 = Inr r2" using stage2_total[OF gm] by blast
  obtain r3 where 3: "stage3 w r2 = Inr r3" using stage3_total[OF gm] by blast
  have "useGSAP_callback w = Inr (w\<lparr>timeline := Some (bake r3 w)\<rparr>)"
    using gm 1 2 3 by (simp add: useGSAP_callback_def)
  then show ?thesis by blast
qed

lemma mount_result:
  "\<exists>g m f t. mount w = Inr (w\<lparr>groupRef := g, materialRef := m, wireframeRef := f, timeline := t\<rparr>)"
proof (cases "groupRef w")
  case None
  obtain t where "useGSAP_callback (attachRefs w) = Inr ((attachRefs w)\<lparr>timeline := t\<rparr>)"
    using useGSAP_callback_result by blast
  then have "mount w = Inr (w\<lparr>groupRef := groupRef (attachRefs w),
      materialRef := materialRef (attachRefs w), wireframeRef := wireframeRef (attachRefs w),
      timeline := t\<rparr>)"
    using None by (simp add: mount_def attachRefs_def)
  then show ?thesis by blast
next
  case (Some g)
  then have "mount w = Inr (w\<lparr>groupRef := groupRef w, materialRef := materialRef w,
      wireframeRef := wireframeRef w, timeline := timeline w\<rparr>)"
    by (simp add: mount_def)
  then show ?thesis by blast
qed

lemma mount_fields:
  assumes "mount w = Inr w'"
  shows "currentScaleRef w' = currentScaleRef w \<and> beatSignalRef w' = beatSignalRef w \<and>
     started w' = started w \<and> audioSystem w' = audioSystem w \<and> transport w' = transport w \<and>
     contextRunning w' = contextRunning w \<and> connections w' = connections w \<and>
     triggered w' = triggered w \<and> cameraPosition w' = cameraPosition w \<and>
     visualParams w' = visualParams w \<and> audioParams w' = audioParams w"
proof -
  from mount_result[of w] obtain g m f t where
    "mount w = Inr (w\<lparr>groupRef := g, materialRef := m, wireframeRef := f, timeline := t\<rparr>)"
    by blast
  with assms have "w' = w\<lparr>groupRef := g, materialRef := m, wireframeRef := f, timeline := t\<rparr>"
    by simp
  then show ?thesis by simp
qed

lemma step_total: "\<exists>w'. step mix ev w = Inr w'"
  using useFrame_total mount_result by (cases ev) (simp_all, blast)

lemma run_total: "\<exists>w'. run mix es w = Inr w'"
proof (induction es arbitrary: w)
  case Nil
  show ?case by simp
next
  case (Cons ev es)
  obtain v where "step mix ev w = Inr v" using step_total by blast
  then show ?case using Cons.IH[of v] by simp
qed

lemma run_invariant:
  assumes "run mix es w = Inr w'" and "P w" and "list_all Q es"
    and "\<And>ev v v'. Q ev \<Longrightarrow> P v \<Longrightarrow> step mix ev v = Inr v' \<Longrightarrow> P v'"
  shows "P w'"
  using assms(1-3)
proof (induction es arbitrary: w)
  case Nil
  then show ?case by simp
next
  case (Cons ev es)
  from Cons.prems(1) obtain v where v: "step mix ev w = Inr v" "run mix es v = Inr w'"
    by (auto simp: bindE_Inr)
  have "P v" using assms(4)[OF _ Cons.prems(2) v(1)] Cons.prems(3) by simp
  then show ?case using Cons.IH[OF v(2)] Cons.prems(3) by simp
qed

lemma lerp_bounds:
  assumes "1 \<le> x" and "x \<le> 13 / 10" and "0 \<le> t" and "t \<le> 1"
  shows "1 \<le> lerp x 1 t \<and> lerp x 1 t \<le> 13 / 10"
proof -
  have a: "lerp x 1 t = 1 + (1 - t) * (x - 1)"
    by (simp add: lerp_def algebra_simps)
  have b: "lerp x 1 t = 13 / 10 - ((1 - t) * (13 / 10 - x) + t * (3 / 10))"
    by (simp add: lerp_def field_simps)
  have p: "0 \<le> (1 - t) * (x - 1)"
    using assms by (intro mult_nonneg_nonneg) simp_all
  have q: "0 \<le> (1 - t) * (13 / 10 - x) + t * (3 / 10)"
    using assms by (intro add_nonneg_nonneg mult_nonneg_nonneg) simp_all
  have "1 \<le> lerp x 1 t" unfolding a using p by simp
  moreover have "lerp x 1 t \<le> 13 / 10" unfolding b using q by simp
  ultimately show ?thesis by simp
qed

lemma step_scale_range:
  assumes "validEvent ev" and "1 \<le> currentScaleRef v \<and> currentScaleRef v \<le> 13 / 10"
    and "step mix ev v = Inr v'"
  shows "1 \<le> currentScaleRef v' \<and> currentScaleRef v' \<le> 13 / 10"
proof (cases ev)
  case Mount
  then show ?thesis using assms mount_fields[of v v'] by simp
next
  case Click
  then show ?thesis using assms by (auto simp: click_def handleStart_def initAudio_def)
next
  case Tick
  then show ?thesis using assms by (auto simp: tick_def loopCallback_def)
next
  case (Frame d e)
  show ?thesis
  proof (cases "groupRef v")
    case None
    then show ?thesis using assms Frame by (simp add: useFrame_unmounted)
  next
    case (Some g)
    have r: "useFrame d e v = Inr v'" using assms(3) Frame by simp
    have d: "0 \<le> d" using assms(1) Frame by simp
    have t: "0 \<le> min d (1 / 10) * 8" "min d (1 / 10) * 8 \<le> 1" using d by auto
    have x: "1 \<le> (if beatSignalRef v then 13 / 10 else currentScaleRef v)"
      "(if beatSignalRef v then 13 / 10 else currentScaleRef v) \<le> 13 / 10"
      using assms(2) by auto
    show ?thesis unfolding useFrame_fields(1)[OF Some r] using lerp_bounds[OF x t] .
  qed
next
  case (Scroll p)
  then show ?thesis using assms untouched_fields[OF scrollTo_untouched, of mix p v] by auto
qed

lemma tick_fields:
  "audioSystem (tick w) = audioSystem w \<and> started (tick w) = started w \<and>
   transport (tick w) = transport w \<and> currentScaleRef (tick w) = currentScaleRef w \<and>
   cameraPosition (tick w) = cameraPosition w \<and> connections (tick w) = connections w \<and>
   contextRunning (tick w) = contextRunning w"
  by (simp add: tick_def loopCallback_def)

lemma step_ready_started:
  assumes "isReady (audioSystem v) \<longrightarrow> started v" and "step mix ev v = Inr v'"
  shows "isReady (audioSystem v') \<longrightarrow> started v'"
proof (cases ev)
  case Mount
  then show ?thesis using assms mount_fields[of v v'] by simp
next
  case Click
  then show ?thesis using assms by (auto simp: click_def handleStart_def overlayRendered_def)
next
  case Tick
  then show ?thesis using assms tick_fields[of v] by simp
next
  case (Frame d e)
  show ?thesis
  proof (cases "groupRef v")
    case None
    then show ?thesis using assms Frame by (simp add: useFrame_unmounted)
  next
    case (Some g)
    have r: "useFrame d e v = Inr v'" using assms(2) Frame by simp
    show ?thesis using assms(1) useFrame_fields(7,10)[OF Some r] by (simp split: if_splits)
  qed
next
  case (Scroll p)
  then show ?thesis using assms untouched_fields[OF scrollTo_untouched, of mix p v] by auto
qed

lemma run_ready_started:
  assumes "run mix es initial = Inr w" and "isReady (audioSystem w)"
  shows "started w"
proof -
  have "isReady (audioSystem w) \<longrightarrow> started w"
  proof (rule run_invariant[OF assms(1), where Q = "\<lambda>ev. True"])
    show "isReady (audioSystem initial) \<longrightarrow> started initial" by (simp add: initial_def)
    show "list_all (\<lambda>ev. True) es" by (simp add: list_all_iff)
    fix ev v v'
    assume "isReady (audioSystem v) \<longrightarrow> started v" and "step mix ev v = Inr v'"
    then show "isReady (audioSystem v') \<longrightarrow> started v'" by (rule step_ready_started)
  qed
  then show ?thesis using assms(2) by simp
qed

lemma step_started:
  assumes "started v" and "step mix ev v = Inr v'"
  shows "started v'"
proof (cases ev)
  case Mount
  then show ?thesis using assms mount_fields[of v v'] by simp
next
  case Click
  then show ?thesis using assms by (auto simp: click_def handleStart_def overlayRendered_def)
next
  case Tick
  then show ?thesis using assms tick_fields[of v] by simp
next
  case (Frame d e)
  show ?thesis
  proof (cases "groupRef v")
    case None
    then show ?thesis using assms Frame by (simp add: useFrame_unmounted)
  next
    case (Some g)
    have r: "useFrame d e v = Inr v'" using assms(2) Frame by simp
    show ?thesis using assms(1) useFrame_fields(10)[OF Some r] by simp
  qed
next
  case (Scroll p)
  then show ?thesis using assms untouched_fields[OF scrollTo_untouched, of mix p v] by auto
qed

lemma run_started:
  assumes "run mix es w = Inr w'" and "started w"
  shows "started w'"
proof (rule run_invariant[OF assms(1), where Q = "\<lambda>ev. True" and P = started])
  show "started w" by (rule assms(2))
  show "list_all (\<lambda>ev. True) es" by (simp add: list_all_iff)
  fix ev v v'
  assume "started v" and "step mix ev v = Inr v'"
  then show "started v'" by (rule step_started)
qed

text \<open>Nothing but a click reaches the audio side of the state.\<close>

lemma step_silent:
  assumes "ev \<noteq> Click" and "audioSilent v" and "step mix ev v = Inr v'"
  shows "audioSilent v'"
proof (cases ev)
  case Mount
  then show ?thesis using assms mount_fields[of v v'] by (simp add: audioSilent_def)
next
  case Click
  then show ?thesis using assms by simp
next
  case Tick
  have "\<not> loopRunning v" using assms(2) by (simp add: audioSilent_def loopRunning_def initial_def)
  then show ?thesis using assms Tick by (simp add: tick_def)
next
  case (Frame d e)
  show ?thesis
  proof (cases "groupRef v")
    case None
    then show ?thesis using assms Frame by (simp add: useFrame_unmounted)
  next
    case (Some g)
    have r: "useFrame d e v = Inr v'" using assms(3) Frame by simp
    have n: "\<not> isReady (audioSystem v)" using assms(2) by (simp add: audioSilent_def initial_def)
    show ?thesis using assms(2) n useFrame_fields(6,7,10,11,12,13)[OF Some r]
      by (simp add: audioSilent_def)
  qed
next
  case (Scroll p)
  then show ?thesis using assms untouched_fields[OF scrollTo_untouched, of mix p v]
    by (auto simp: audioSilent_def)
qed

lemma run_silent:
  assumes "run mix es initial = Inr w" and "Click \<notin> set es"
  shows "audioSilent w"
proof (rule run_invariant[OF assms(1), where Q = "\<lambda>ev. ev \<noteq> Click" and P = audioSilent])
  show "audioSilent initial" by (simp add: audioSilent_def initial_def)
  show "list_all (\<lambda>ev. ev \<noteq> Click) es" using assms(2) by (auto simp: list_all_iff)
  fix ev v v'
  assume "ev \<noteq> Click" and "audioSilent v" and "step mix ev v = Inr v'"
  then show "audioSilent v'" by (rule step_silent)
qed

section \<open>Facts about the mounted page and its timeline\<close>

lemmas build_defs = stage1_def stage2_def stage3_def tl_to_def tl_fromTo_def tl_place_def
  deref_def Let_def useGSAP_callback_def mount_def attachRefs_def initial_def
  setScalar_def getAxis_def setAxis_def getVisual_def getAudio_def

lemma mount_initial: "mount initial = Inr mounted"
  by (simp add: mounted_def build_defs)

lemma mounted_fields:
  "groupRef mounted = Some \<lparr>o_position = setScalar 0, o_rotation = setScalar 0,
                             o_scale = setScalar 1\<rparr>"
  "materialRef mounted = Some \<lparr>m_color = Css ''#ffffff'', m_opacity = 1 / 2,
                                m_distort = 3 / 10, m_speed = 2\<rparr>"
  "wireframeRef mounted = Some \<lparr>o_position = setScalar 0, o_rotation = setScalar 0,
                                 o_scale = setScalar (105 / 100)\<rparr>"
  "currentScaleRef mounted = 1" "beatSignalRef mounted = False" "started mounted = False"
  "audioSystem mounted = audioSystem initial" "transport mounted = transport initial"
  "contextRunning mounted = False" "connections mounted = []" "triggered mounted = []"
  "cameraPosition mounted = \<lparr>vx = 0, vy = 0, vz = 5\<rparr>"
  "visualParams mounted = visualParams initial" "audioParams mounted = audioParams initial"
  by (simp_all add: mounted_def build_defs)

lemma bindE_run_Nil: "bindE m (run mix []) = m"
  by (cases m) simp_all

lemma beat_frame_run:
  "run linearMix [Mount, Click, Tick, Frame (1 / 60) 0] initial =
     useFrame (1 / 60) 0 (tick (click mounted))"
  by (simp add: mount_initial bindE_run_Nil)

lemma clicked_fields:
  "groupRef (tick (click mounted)) = groupRef mounted"
  "beatSignalRef (tick (click mounted)) = True"
  "currentScaleRef (tick (click mounted)) = 1"
  "isReady (audioSystem (click mounted)) = True"
  by (simp_all add: tick_def loopCallback_def loopRunning_def click_def handleStart_def
      overlayRendered_def initAudio_def mounted_fields initial_def)

text \<open>
  The model does see a missing guard: the callback of the second source file tests the
  group only and fails when the wireframe is not attached.
\<close>

lemma part000_callback_unguarded:
  "useGSAP_callback_part000 ((attachRefs initial)\<lparr>wireframeRef := None\<rparr>) = Inl NullDereference"
  by (simp add: useGSAP_callback_part000_def stage1_def stage2_part000_def attachRefs_def
      deref_def Let_def)

lemma clicked_audio:
  "audioSystem (click mounted) =
     \<lparr>heart = Some \<lparr>ms_volume = 0, ms_pitchDecay = 1 / 10, ms_octaves = 3\<rparr>,
      blood = Some \<lparr>ns_volume = - 15, ns_noise = ''brown''\<rparr>,
      distortion = Some 0,
      reverb = Some \<lparr>rv_decay = 5, rv_preDelay = 1 / 10, rv_wet = Some (3 / 10)\<rparr>,
      loop = Some \<lparr>lp_interval = ''4n'', lp_started = True\<rparr>,
      isReady = True\<rparr>"
  "transport (click mounted) = \<lparr>t_bpm = 60, t_started = True\<rparr>"
  "groupRef (click mounted) = groupRef mounted"
  "materialRef (click mounted) = materialRef mounted"
  "started (click mounted) = True"
  "beatSignalRef (click mounted) = False"
  "triggered (click mounted) = []"
  by (simp_all add: click_def handleStart_def overlayRendered_def initAudio_def
      mounted_fields initial_def)

lemmas render_defs = scrollTo_def render_def forwardTween_def rewindTween_def progress_def

lemmas part000_defs = stage2_part000_def useGSAP_callback_part000_def mount_part000_def
  mounted_part000_def

lemma mount_part000_initial: "mount_part000 initial = Inr mounted_part000"
  by (simp add: part000_defs build_defs)

lemma linearMix_ends: "linearMix 0 a b = a" "linearMix 1 a b = b"
  by (cases "(0::real, a, b)" rule: linearMix.cases; simp)
     (cases "(1::real, a, b)" rule: linearMix.cases; simp)

lemma keyframe0:
  assumes "\<And>a b. mix 0 a b = a" and "\<And>a b. mix 1 a b = b"
  shows "scrollTo mix 0 mounted = mounted"
  by (simp add: mounted_def build_defs render_defs assms)

lemma keyframe1:
  assumes "\<And>a b. mix 0 a b = a" and "\<And>a b. mix 1 a b = b"
  shows "scrollTo mix (1 / 3) mounted =
     mounted\<lparr>groupRef := Some \<lparr>o_position = \<lparr>vx = 1 / 2, vy = 0, vz = 3 / 2\<rparr>,
                                o_rotation = \<lparr>vx = 0, vy = Math_PI, vz = 0\<rparr>,
                                o_scale = setScalar 1\<rparr>,
             visualParams := \<lparr>vp_color = Css ''#4ecdc4'', vp_distort = 8 / 10,
                               vp_opacity = 8 / 10\<rparr>,
             audioParams := \<lparr>ap_bpm = 100, ap_distort = 0, ap_reverbWet = 3 / 10\<rparr>\<rparr>"
  by (simp add: mounted_def build_defs render_defs assms)

lemma keyframe2:
  assumes "\<And>a b. mix 0 a b = a" and "\<And>a b. mix 1 a b = b"
  shows "scrollTo mix (2 / 3) mounted =
     mounted\<lparr>groupRef := Some \<lparr>o_position = \<lparr>vx = - (3 / 2), vy = 0, vz = 3 / 2\<rparr>,
                                o_rotation = \<lparr>vx = 0, vy = Math_PI, vz = 0\<rparr>,
                                o_scale = setScalar 1\<rparr>,
             wireframeRef := Some \<lparr>o_position = setScalar 0, o_rotation = setScalar 0,
                                    o_scale = setScalar (3 / 2)\<rparr>,
             visualParams := \<lparr>vp_color = Css ''#ff6b6b'', vp_distort = 3 / 2,
                               vp_opacity = 95 / 100\<rparr>,
             audioParams := \<lparr>ap_bpm = 180, ap_distort = 8 / 10, ap_reverbWet = 3 / 10\<rparr>\<rparr>"
  by (simp add: mounted_def build_defs render_defs assms)

lemma keyframe3:
  assumes "\<And>a b. mix 0 a b = a" and "\<And>a b. mix 1 a b = b"
  shows "scrollTo mix 1 mounted =
     mounted\<lparr>groupRef := Some \<lparr>o_position = \<lparr>vx = 0, vy = 0, vz = 0\<rparr>,
                                o_rotation = \<lparr>vx = 0, vy = Math_PI, vz = 0\<rparr>,
                                o_scale = setScalar 1\<rparr>,
             visualParams := \<lparr>vp_color = Css ''#ffffff'', vp_distort = 0,
                               vp_opacity = 3 / 10\<rparr>,
             audioParams := \<lparr>ap_bpm = 30, ap_distort = 0, ap_reverbWet = 1\<rparr>\<rparr>"
  by (simp add: mounted_def build_defs render_defs assms)

lemma keyframe_part000_0:
  assumes "\<And>a b. mix 0 a b = a" and "\<And>a b. mix 1 a b = b"
  shows "scrollTo mix 0 mounted_part000 = mounted_part000"
  by (simp add: part000_defs build_defs render_defs assms)

lemma keyframe_part000_1:
  assumes "\<And>a b. mix 0 a b = a" and "\<And>a b. mix 1 a b = b"
  shows "scrollTo mix (1 / 3) mounted_part000 =
     mounted_part000\<lparr>groupRef := Some \<lparr>o_position = \<lparr>vx = 1 / 2, vy = 0, vz = 3 / 2\<rparr>,
                                o_rotation = \<lparr>vx = 0, vy = Math_PI, vz = 0\<rparr>,
                                o_scale = setScalar 1\<rparr>,
             visualParams := \<lparr>vp_color = Css ''#4ecdc4'', vp_distort = 8 / 10,
                               vp_opacity = 8 / 10\<rparr>,
             audioParams := \<lparr>ap_bpm = 100, ap_distort = 0, ap_reverbWet = 3 / 10\<rparr>\<rparr>"
  by (simp add: part000_defs build_defs render_defs assms)

lemma keyframe_part000_2:
  assumes "\<And>a b. mix 0 a b = a" and "\<And>a b. mix 1 a b = b"
  shows "scrollTo mix (2 / 3) mounted_part000 =
     mounted_part000\<lparr>groupRef := Some \<lparr>o_position = \<lparr>vx = - (3 / 2), vy = 0, vz = 3 / 2\<rparr>,
                                o_rotation = \<lparr>vx = 0, vy = Math_PI, vz = 0\<rparr>,
                                o_scale = setScalar 1\<rparr>,
             wireframeRef := Some \<lparr>o_position = setScalar 0, o_rotation = setScalar 0,
                                    o_scale = setScalar (3 / 2)\<rparr>,
             visualParams := \<lparr>vp_color = Css ''#ff6b6b'', vp_distort = 1,
                               vp_opacity = 95 / 100\<rparr>,
             audioParams := \<lparr>ap_bpm = 180, ap_distort = 8 / 10, ap_reverbWet = 3 / 10\<rparr>\<rparr>"
  by (simp add: part000_defs build_defs render_defs assms)

lemma keyframe_part000_3:
  assumes "\<And>a b. mix 0 a b = a" and "\<And>a b. mix 1 a b = b"
  shows "scrollTo mix 1 mounted_part000 =
     mounted_part000\<lparr>groupRef := Some \<lparr>o_position = \<lparr>vx = 0, vy = 0, vz = 0\<rparr>,
                                o_rotation = \<lparr>vx = 0, vy = Math_PI, vz = 0\<rparr>,
                                o_scale = setScalar 1\<rparr>,
             visualParams := \<lparr>vp_color = Css ''#ffffff'', vp_distort = 0,
                               vp_opacity = 3 / 10\<rparr>,
             audioParams := \<lparr>ap_bpm = 30, ap_distort = 0, ap_reverbWet = 1\<rparr>\<rparr>"
  by (simp add: part000_defs build_defs render_defs assms)

lemma step_camera:
  assumes "step mix ev v = Inr v'"
  shows "cameraPosition v' = cameraPosition v"
proof (cases ev)
  case Mount
  then show ?thesis using assms mount_fields[of v v'] by simp
next
  case Click
  then show ?thesis using assms by (auto simp: click_def handleStart_def initAudio_def)
next
  case Tick
  then show ?thesis using assms tick_fields[of v] by auto
next
  case (Frame d e)
  show ?thesis
  proof (cases "groupRef v")
    case None
    then show ?thesis using assms Frame by (simp add: useFrame_unmounted)
  next
    case (Some g)
    have r: "useFrame d e v = Inr v'" using assms Frame by simp
    show ?thesis using useFrame_fields(14)[OF Some r] .
  qed
next
  case (Scroll p)
  then show ?thesis using assms untouched_fields[OF scrollTo_untouched, of mix p v] by auto
qed

lemma run_camera:
  assumes "run mix es w = Inr w'"
  shows "cameraPosition w' = cameraPosition w"
proof -
  have "cameraPosition w' = cameraPosition w"
  proof (rule run_invariant[OF assms, where Q = "\<lambda>ev. True"
        and P = "\<lambda>v. cameraPosition v = cameraPosition w"])
    show "cameraPosition w = cameraPosition w" by simp
    show "list_all (\<lambda>ev. True) es" by (simp add: list_all_iff)
    fix ev v v'
    assume "cameraPosition v = cameraPosition w" and "step mix ev v = Inr v'"
    then show "cameraPosition v' = cameraPosition w" using step_camera by simp
  qed
  then show ?thesis .
qed

lemma appTimeline_props:
  "tweenedProps appTimeline =
     [(GroupPosition, ''z''), (GroupPosition, ''x''),
      (VisualParams, ''color''), (VisualParams, ''opacity''), (VisualParams, ''distort''),
      (GroupRotation, ''y''), (AudioParams, ''bpm''),
      (GroupPosition, ''x''),
      (VisualParams, ''distort''), (VisualParams, ''color''), (VisualParams, ''opacity''),
      (WireframeScale, ''x''), (WireframeScale, ''y''), (WireframeScale, ''z''),
      (AudioParams, ''bpm''), (AudioParams, ''distort''),
      (GroupPosition, ''x''), (GroupPosition, ''z''),
      (VisualParams, ''distort''), (VisualParams, ''color''), (VisualParams, ''opacity''),
      (WireframeScale, ''x''), (WireframeScale, ''y''), (WireframeScale, ''z''),
      (AudioParams, ''bpm''), (AudioParams, ''distort''), (AudioParams, ''reverbWet'')]"
  by (simp add: appTimeline_def mounted_def build_defs)

subsection \<open>What every run of the page keeps\<close>

lemma setProp_group_None: "(groupRef (setProp t p v w) = None) = (groupRef w = None)"
  by (cases "(t, p, v, w)" rule: setProp.cases) simp_all

lemma setProps_group_None: "(groupRef (setProps t vars w) = None) = (groupRef w = None)"
proof (induction vars arbitrary: w)
  case Nil
  show ?case by simp
next
  case (Cons a vars)
  obtain p v where a: "a = (p, v)" by (cases a)
  show ?case unfolding a setProps.simps Cons.IH by (rule setProp_group_None)
qed

lemma forwardTween_group_None:
  "(groupRef (forwardTween mix T tw w) = None) = (groupRef w = None)"
  by (simp add: forwardTween_def setProps_group_None split: option.split)

lemma rewindTween_group_None: "(groupRef (rewindTween tw w) = None) = (groupRef w = None)"
  by (simp add: rewindTween_def setProps_group_None split: option.split)

lemma fold_group_None:
  assumes "\<And>x v. (groupRef (f x v) = None) = (groupRef v = None)"
  shows "(groupRef (fold f xs w) = None) = (groupRef w = None)"
proof (induction xs arbitrary: w)
  case Nil
  show ?case by simp
next
  case (Cons x xs)
  show ?case using Cons.IH[of "f x w"] assms[of x w] by simp
qed

lemma scrollTo_group_None: "(groupRef (scrollTo mix p w) = None) = (groupRef w = None)"
proof (cases "timeline w")
  case None
  then show ?thesis by (simp add: scrollTo_def)
next
  case (Some tln)
  have "(groupRef (render mix (min 1 (max 0 p) * tl_end tln) tln w) = None) = (groupRef w = None)"
    unfolding render_def
    using fold_group_None[of "forwardTween mix (min 1 (max 0 p) * tl_end tln)" tln
        "fold rewindTween (rev tln) w", OF forwardTween_group_None]
      fold_group_None[of rewindTween "rev tln" w, OF rewindTween_group_None]
    by simp
  then show ?thesis using Some by (simp add: scrollTo_def)
qed

lemma tick_refs: "groupRef (tick w) = groupRef w \<and> materialRef (tick w) = materialRef w"
  by (simp add: tick_def loopCallback_def)

lemma click_refs: "groupRef (click w) = groupRef w \<and> materialRef (click w) = materialRef w"
  by (simp add: click_def handleStart_def initAudio_def)

lemma click_audio:
  "audioSystem (click w) = audioSystem w \<or>
   audioSystem (click w) =
     \<lparr>heart = Some \<lparr>ms_volume = 0, ms_pitchDecay = 1 / 10, ms_octaves = 3\<rparr>,
      blood = Some \<lparr>ns_volume = - 15, ns_noise = ''brown''\<rparr>,
      distortion = Some 0,
      reverb = Some \<lparr>rv_decay = 5, rv_preDelay = 1 / 10, rv_wet = Some (3 / 10)\<rparr>,
      loop = Some \<lparr>lp_interval = ''4n'', lp_started = True\<rparr>,
      isReady = True\<rparr>"
  by (simp add: click_def handleStart_def initAudio_def)

lemma mount_refs:
  assumes "mount w = Inr w'"
  shows "(groupRef w = None \<longrightarrow> groupRef w' \<noteq> None \<and> materialRef w' \<noteq> None) \<and>
         (groupRef w \<noteq> None \<longrightarrow> w' = w)"
proof (cases "groupRef w")
  case None
  obtain t where "useGSAP_callback (attachRefs w) = Inr ((attachRefs w)\<lparr>timeline := t\<rparr>)"
    using useGSAP_callback_result by blast
  then have "w' = (attachRefs w)\<lparr>timeline := t\<rparr>" using assms None by (simp add: mount_def)
  then show ?thesis using None by (simp add: attachRefs_def)
next
  case (Some g)
  then show ?thesis using assms by (simp add: mount_def)
qed

text \<open>The group and the material are attached together.\<close>

lemma step_refs:
  assumes "(groupRef v = None) = (materialRef v = None)" and "step mix ev v = Inr v'"
  shows "(groupRef v' = None) = (materialRef v' = None)"
proof (cases ev)
  case Mount
  then show ?thesis using assms mount_refs[of v v'] by auto
next
  case Click
  then show ?thesis using assms click_refs[of v] by simp
next
  case Tick
  then show ?thesis using assms tick_refs[of v] by simp
next
  case (Frame d e)
  show ?thesis
  proof (cases "groupRef v")
    case None
    then show ?thesis using assms Frame by (simp add: useFrame_unmounted)
  next
    case (Some g)
    have r: "useFrame d e v = Inr v'" using assms(2) Frame by simp
    show ?thesis using assms(1) Some useFrame_fields(3,4)[OF Some r] by simp
  qed
next
  case (Scroll p)
  then show ?thesis
    using assms untouched_fields[OF scrollTo_untouched, of mix p v]
      scrollTo_group_None[of mix p v] by auto
qed

lemma run_refs:
  assumes "run mix es initial = Inr w"
  shows "(groupRef w = None) = (materialRef w = None)"
proof (rule run_invariant[OF assms, where Q = "\<lambda>ev. True"
      and P = "\<lambda>v. (groupRef v = None) = (materialRef v = None)"])
  show "(groupRef initial = None) = (materialRef initial = None)" by (simp add: initial_def)
  show "list_all (\<lambda>ev. True) es" by (simp add: list_all_iff)
  fix ev v v'
  assume "(groupRef v = None) = (materialRef v = None)" and "step mix ev v = Inr v'"
  then show "(groupRef v' = None) = (materialRef v' = None)" by (rule step_refs)
qed

text \<open>A ready audio system has its distortion node, its reverb and the reverb's wet signal.\<close>

lemma step_nodes:
  assumes "isReady (audioSystem v) \<longrightarrow>
      (\<exists>x r y. distortion (audioSystem v) = Some x \<and> reverb (audioSystem v) = Some r \<and>
         rv_wet r = Some y)"
    and "step mix ev v = Inr v'"
  shows "isReady (audioSystem v') \<longrightarrow>
      (\<exists>x r y. distortion (audioSystem v') = Some x \<and> reverb (audioSystem v') = Some r \<and>
         rv_wet r = Some y)"
proof (cases ev)
  case Mount
  then show ?thesis using assms mount_fields[of v v'] by simp
next
  case Click
  then have v': "v' = click v" using assms(2) by simp
  show ?thesis
  proof (cases "audioSystem (click v) = audioSystem v")
    case True
    then show ?thesis using assms(1) v' by simp
  next
    case False
    then have "distortion (audioSystem (click v)) = Some 0"
      "reverb (audioSystem (click v)) =
         Some \<lparr>rv_decay = 5, rv_preDelay = 1 / 10, rv_wet = Some (3 / 10)\<rparr>"
      using click_audio[of v] by simp_all
    moreover have "rv_wet \<lparr>rv_decay = 5, rv_preDelay = 1 / 10, rv_wet = Some (3 / 10)\<rparr>
        = Some (3 / 10)" by simp
    ultimately show ?thesis unfolding v' by blast
  qed
next
  case Tick
  then show ?thesis using assms tick_fields[of v] by simp
next
  case (Frame d e)
  show ?thesis
  proof (cases "groupRef v")
    case None
    then show ?thesis using assms Frame by (simp add: useFrame_unmounted)
  next
    case (Some g)
    have r: "useFrame d e v = Inr v'" using assms(2) Frame by simp
    show ?thesis
    proof (cases "isReady (audioSystem v)")
      case True
      then obtain x r0 y where n: "distortion (audioSystem v) = Some x"
        "reverb (audioSystem v) = Some r0" "rv_wet r0 = Some y" using assms(1) by blast
      show ?thesis unfolding useFrame_fields(7)[OF Some r] using True n by simp
    next
      case False
      then show ?thesis unfolding useFrame_fields(7)[OF Some r] by simp
    qed
  qed
next
  case (Scroll p)
  then show ?thesis using assms untouched_fields[OF scrollTo_untouched, of mix p v] by auto
qed

lemma run_nodes:
  assumes "run mix es initial = Inr w" and "isReady (audioSystem w)"
  shows "\<exists>x r y. distortion (audioSystem w) = Some x \<and> reverb (audioSystem w) = Some r \<and>
         rv_wet r = Some y"
proof -
  have "isReady (audioSystem w) \<longrightarrow>
      (\<exists>x r y. distortion (audioSystem w) = Some x \<and> reverb (audioSystem w) = Some r \<and>
         rv_wet r = Some y)"
  proof (rule run_invariant[OF assms(1), where Q = "\<lambda>ev. True"])
    show "isReady (audioSystem initial) \<longrightarrow>
      (\<exists>x r y. distortion (audioSystem initial) = Some x \<and>
         reverb (audioSystem initial) = Some r \<and> rv_wet r = Some y)"
      by (simp add: initial_def)
    show "list_all (\<lambda>ev. True) es" by (simp add: list_all_iff)
    fix ev v v'
    assume "isReady (audioSystem v) \<longrightarrow>
      (\<exists>x r y. distortion (audioSystem v) = Some x \<and> reverb (audioSystem v) = Some r \<and>
         rv_wet r = Some y)" and "step mix ev v = Inr v'"
    then show "isReady (audioSystem v') \<longrightarrow>
      (\<exists>x r y. distortion (audioSystem v') = Some x \<and> reverb (audioSystem v') = Some r \<and>
         rv_wet r = Some y)" by (rule step_nodes)
  qed
  then show ?thesis using assms(2) by simp
qed

lemma scrolled_clicked:
  "audioParams (scrollTo linearMix (2 / 3) (click mounted)) =
     \<lparr>ap_bpm = 180, ap_distort = 8 / 10, ap_reverbWet = 3 / 10\<rparr>"
  "visualParams (scrollTo linearMix (2 / 3) (click mounted)) =
     \<lparr>vp_color = Css ''#ff6b6b'', vp_distort = 3 / 2, vp_opacity = 95 / 100\<rparr>"
  by (simp_all add: click_def handleStart_def overlayRendered_def initAudio_def mounted_def
      build_defs render_defs)

section \<open>The claims\<close>

text \<open>
  Claim C1. The timeline has four key states, at the scroll fractions 0, 1/3, 2/3 and 1
  (the playhead at 0, 1, 2 and 3 of a timeline three units long): the resting state
  (bpm 60, colour \<^verbatim>\<open>#ffffff\<close>, opacity 0.5, distort 0.3), then the ends of the three
  stages: (bpm 100, \<^verbatim>\<open>#4ecdc4\<close>, opacity 0.8, distort 0.8), (bpm 180, \<^verbatim>\<open>#ff6b6b\<close>,
  opacity 0.95, audio distortion 0.8) and (bpm 30, \<^verbatim>\<open>#ffffff\<close>, opacity 0.3, distort 0,
  reverb wet 1). This holds for the timeline of either source file (they differ in the
  visual distortion at the end of the second stage, 1.5 and 1.0), for every interpolation
  that gives a tween's start value at ratio 0 and its end value at ratio 1.
\<close>

theorem timeline_stage_endpoints:
  assumes "\<And>a b. mix 0 a b = a" and "\<And>a b. mix 1 a b = b"
  shows "mount initial = Inr mounted \<and> map_option tl_end (timeline mounted) = Some 3 \<and>
     visualParams (scrollTo mix 0 mounted) =
       \<lparr>vp_color = Css ''#ffffff'', vp_distort = 3 / 10, vp_opacity = 1 / 2\<rparr> \<and>
     audioParams (scrollTo mix 0 mounted) =
       \<lparr>ap_bpm = 60, ap_distort = 0, ap_reverbWet = 3 / 10\<rparr> \<and>
     visualParams (scrollTo mix (1 / 3) mounted) =
       \<lparr>vp_color = Css ''#4ecdc4'', vp_distort = 8 / 10, vp_opacity = 8 / 10\<rparr> \<and>
     audioParams (scrollTo mix (1 / 3) mounted) =
       \<lparr>ap_bpm = 100, ap_distort = 0, ap_reverbWet = 3 / 10\<rparr> \<and>
     visualParams (scrollTo mix (2 / 3) mounted) =
       \<lparr>vp_color = Css ''#ff6b6b'', vp_distort = 3 / 2, vp_opacity = 95 / 100\<rparr> \<and>
     audioParams (scrollTo mix (2 / 3) mounted) =
       \<lparr>ap_bpm = 180, ap_distort = 8 / 10, ap_reverbWet = 3 / 10\<rparr> \<and>
     visualParams (scrollTo mix 1 mounted) =
       \<lparr>vp_color = Css ''#ffffff'', vp_distort = 0, vp_opacity = 3 / 10\<rparr> \<and>
     audioParams (scrollTo mix 1 mounted) =
       \<lparr>ap_bpm = 30, ap_distort = 0, ap_reverbWet = 1\<rparr> \<and>
     mount_part000 initial = Inr mounted_part000 \<and>
     map_option tl_end (timeline mounted_part000) = Some 3 \<and>
     visualParams (scrollTo mix 0 mounted_part000) =
       \<lparr>vp_color = Css ''#ffffff'', vp_distort = 3 / 10, vp_opacity = 1 / 2\<rparr> \<and>
     audioParams (scrollTo mix 0 mounted_part000) =
       \<lparr>ap_bpm = 60, ap_distort = 0, ap_reverbWet = 3 / 10\<rparr> \<and>
     visualParams (scrollTo mix (1 / 3) mounted_part000) =
       \<lparr>vp_color = Css ''#4ecdc4'', vp_distort = 8 / 10, vp_opacity = 8 / 10\<rparr> \<and>
     audioParams (scrollTo mix (1 / 3) mounted_part000) =
       \<lparr>ap_bpm = 100, ap_distort = 0, ap_reverbWet = 3 / 10\<rparr> \<and>
     visualParams (scrollTo mix (2 / 3) mounted_part000) =
       \<lparr>vp_color = Css ''#ff6b6b'', vp_distort = 1, vp_opacity = 95 / 100\<rparr> \<and>
     audioParams (scrollTo mix (2 / 3) mounted_part000) =
       \<lparr>ap_bpm = 180, ap_distort = 8 / 10, ap_reverbWet = 3 / 10\<rparr> \<and>
     visualParams (scrollTo mix 1 mounted_part000) =
       \<lparr>vp_color = Css ''#ffffff'', vp_distort = 0, vp_opacity = 3 / 10\<rparr> \<and>
     audioParams (scrollTo mix 1 mounted_part000) =
       \<lparr>ap_bpm = 30, ap_distort = 0, ap_reverbWet = 1\<rparr>"
proof -
  have e: "map_option tl_end (timeline mounted) = Some 3"
    "map_option tl_end (timeline mounted_part000) = Some 3"
    by (simp_all add: mounted_def part000_defs build_defs)
  have i: "visualParams mounted =
       \<lparr>vp_color = Css ''#ffffff'', vp_distort = 3 / 10, vp_opacity = 1 / 2\<rparr>"
    "audioParams mounted = \<lparr>ap_bpm = 60, ap_distort = 0, ap_reverbWet = 3 / 10\<rparr>"
    "visualParams mounted_part000 =
       \<lparr>vp_color = Css ''#ffffff'', vp_distort = 3 / 10, vp_opacity = 1 / 2\<rparr>"
    "audioParams mounted_part000 = \<lparr>ap_bpm = 60, ap_distort = 0, ap_reverbWet = 3 / 10\<rparr>"
    by (simp_all add: mounted_def part000_defs build_defs)
  show ?thesis
    unfolding keyframe0[of mix, OF assms] keyframe1[of mix, OF assms]
      keyframe2[of mix, OF assms] keyframe3[of mix, OF assms]
      keyframe_part000_0[of mix, OF assms] keyframe_part000_1[of mix, OF assms]
      keyframe_part000_2[of mix, OF assms] keyframe_part000_3[of mix, OF assms]
    using e i mount_initial mount_part000_initial by simp
qed

theorem timeline_stage_endpoints_witness:
  "(\<forall>a b. linearMix 0 a b = a) \<and> (\<forall>a b. linearMix 1 a b = b) \<and>
   audioParams (scrollTo linearMix (1 / 3) mounted) =
     \<lparr>ap_bpm = 100, ap_distort = 0, ap_reverbWet = 3 / 10\<rparr> \<and>
   visualParams (scrollTo linearMix (2 / 3) mounted) =
     \<lparr>vp_color = Css ''#ff6b6b'', vp_distort = 3 / 2, vp_opacity = 95 / 100\<rparr> \<and>
   visualParams (scrollTo linearMix (2 / 3) mounted_part000) =
     \<lparr>vp_color = Css ''#ff6b6b'', vp_distort = 1, vp_opacity = 95 / 100\<rparr> \<and>
   audioParams (scrollTo linearMix 1 mounted) =
     \<lparr>ap_bpm = 30, ap_distort = 0, ap_reverbWet = 1\<rparr>"
  using timeline_stage_endpoints[of linearMix, OF linearMix_ends] linearMix_ends by simp

text \<open>
  Claim C2. On every frame of a run of the page in which the material reference is
  non-null, the per-frame callback copies the tweened parameters onto the material
  (colour, opacity, distortion, and speed \<open>bpm / 30\<close>) and, when the audio system is
  ready, copies the audio parameters onto the transport (tempo), the distortion node
  (amount) and the reverb (wet).
\<close>

theorem frame_copies_params:
  assumes "run mix es initial = Inr w" and "materialRef w = Some m"
  shows "\<exists>w'. useFrame delta elapsed w = Inr w' \<and>
     materialRef w' = Some (m\<lparr>m_color := vp_color (visualParams w),
                               m_opacity := vp_opacity (visualParams w),
                               m_distort := vp_distort (visualParams w),
                               m_speed := ap_bpm (audioParams w) / 30\<rparr>) \<and>
     (isReady (audioSystem w) \<longrightarrow>
        t_bpm (transport w') = ap_bpm (audioParams w) \<and>
        distortion (audioSystem w') = Some (ap_distort (audioParams w)) \<and>
        map_option rv_wet (reverb (audioSystem w')) =
          Some (Some (ap_reverbWet (audioParams w))))"
proof -
  obtain g where g: "groupRef w = Some g" using run_refs[OF assms(1)] assms(2) by auto
  obtain w' where r: "useFrame delta elapsed w = Inr w'" using useFrame_total by blast
  note f = useFrame_fields[OF g r]
  have 1: "materialRef w' = Some (m\<lparr>m_color := vp_color (visualParams w),
                               m_opacity := vp_opacity (visualParams w),
                               m_distort := vp_distort (visualParams w),
                               m_speed := ap_bpm (audioParams w) / 30\<rparr>)"
    unfolding f(4) using assms(2) by simp
  have 2: "isReady (audioSystem w) \<longrightarrow>
        t_bpm (transport w') = ap_bpm (audioParams w) \<and>
        distortion (audioSystem w') = Some (ap_distort (audioParams w)) \<and>
        map_option rv_wet (reverb (audioSystem w')) =
          Some (Some (ap_reverbWet (audioParams w)))"
  proof
    assume ready: "isReady (audioSystem w)"
    from run_nodes[OF assms(1) ready] obtain x r0 y where
      n: "distortion (audioSystem w) = Some x" "reverb (audioSystem w) = Some r0"
        "rv_wet r0 = Some y" by blast
    show "t_bpm (transport w') = ap_bpm (audioParams w) \<and>
        distortion (audioSystem w') = Some (ap_distort (audioParams w)) \<and>
        map_option rv_wet (reverb (audioSystem w')) =
          Some (Some (ap_reverbWet (audioParams w)))"
      unfolding f(6) f(7) using ready n by simp
  qed
  show ?thesis using r 1 2 by blast
qed

theorem frame_copies_params_witness:
  "run linearMix [Mount, Click, Scroll (2 / 3)] initial =
     Inr (scrollTo linearMix (2 / 3) (click mounted)) \<and>
   materialRef (scrollTo linearMix (2 / 3) (click mounted)) \<noteq> None \<and>
   isReady (audioSystem (scrollTo linearMix (2 / 3) (click mounted))) \<and>
   map_sum id materialRef (useFrame (1 / 60) 0 (scrollTo linearMix (2 / 3) (click mounted))) =
     Inr (Some \<lparr>m_color = Css ''#ff6b6b'', m_opacity = 95 / 100, m_distort = 3 / 2,
                 m_speed = 6\<rparr>) \<and>
   map_sum id (t_bpm \<circ> transport)
     (useFrame (1 / 60) 0 (scrollTo linearMix (2 / 3) (click mounted))) = Inr 180 \<and>
   map_sum id (distortion \<circ> audioSystem)
     (useFrame (1 / 60) 0 (scrollTo linearMix (2 / 3) (click mounted))) = Inr (Some (8 / 10))"
proof -
  let ?w = "scrollTo linearMix (2 / 3) (click mounted)"
  have run: "run linearMix [Mount, Click, Scroll (2 / 3)] initial = Inr ?w"
    by (simp add: mount_initial)
  note u = untouched_fields[OF scrollTo_untouched, of linearMix "2 / 3" "click mounted"]
  have m: "materialRef ?w = Some \<lparr>m_color = Css ''#ffffff'', m_opacity = 1 / 2,
                                   m_distort = 3 / 10, m_speed = 2\<rparr>"
    using u by (simp add: clicked_audio mounted_fields)
  have ready: "isReady (audioSystem ?w)" using u by (simp add: clicked_audio)
  from frame_copies_params[OF run m, of "1 / 60" 0] ready obtain w' where
    r: "useFrame (1 / 60) 0 ?w = Inr w'" and
    c: "materialRef w' = Some (\<lparr>m_color = Css ''#ffffff'', m_opacity = 1 / 2,
                                   m_distort = 3 / 10, m_speed = 2\<rparr>
          \<lparr>m_color := vp_color (visualParams ?w), m_opacity := vp_opacity (visualParams ?w),
           m_distort := vp_distort (visualParams ?w),
           m_speed := ap_bpm (audioParams ?w) / 30\<rparr>)"
      "t_bpm (transport w') = ap_bpm (audioParams ?w)"
      "distortion (audioSystem w') = Some (ap_distort (audioParams ?w))"
    by blast
  show ?thesis using run m ready r c by (simp add: scrolled_clicked)
qed

text \<open>
  Claim C3, as stated: on the frame that finds the beat flag set the callback sets the
  group's scale to 1.3. It fails in a frame of a tenth of a second after a tick: the
  scale value is set to 1.3 on line 105, but line 109 interpolates it toward 1 before
  line 110 writes it to the group, which receives 1.06.
\<close>

theorem beat_frame_scale_counterexample:
  "beatSignalRef (tick (click mounted)) \<and>
   map_sum id (map_option o_scale \<circ> groupRef) (useFrame (1 / 10) 0 (tick (click mounted)))
     = Inr (Some (setScalar (53 / 50))) \<and>
   setScalar (53 / 50) \<noteq> setScalar (13 / 10)"
proof -
  have g: "groupRef (tick (click mounted)) =
      Some \<lparr>o_position = setScalar 0, o_rotation = setScalar 0, o_scale = setScalar 1\<rparr>"
    by (simp add: clicked_fields mounted_fields)
  obtain w' where r: "useFrame (1 / 10) 0 (tick (click mounted)) = Inr w'"
    using useFrame_total by blast
  have s: "currentScaleRef w' = 53 / 50"
    using useFrame_fields(1)[OF g r] by (simp add: clicked_fields lerp_def)
  have "map_option o_scale (groupRef w') = Some (setScalar (53 / 50))"
    unfolding useFrame_fields(3)[OF g r] s by simp
  then show ?thesis using r by (simp add: clicked_fields setScalar_def)
qed

text \<open>
  Claim C3, amended. On every tick of the running audio loop the heart synth and the
  blood synth are triggered and the beat flag is set. On a frame that finds the flag set
  and the group reference non-null, the callback sets the scale value to 1.3, moves it
  toward 1 by the factor \<open>8 * min delta 0.1\<close>, writes the result to the group's scale and
  clears the flag; the group receives exactly 1.3 only when that factor is 0.
\<close>

theorem beat_tick_then_frame:
  "(loopRunning w \<longrightarrow>
      triggered (tick w) =
        triggered w @ [HeartAttackRelease ''C0'' ''4n'', BloodAttackRelease ''8n''] \<and>
      beatSignalRef (tick w)) \<and>
   (beatSignalRef w \<and> groupRef w = Some g \<longrightarrow>
      (\<exists>w'. useFrame delta elapsed w = Inr w' \<and> \<not> beatSignalRef w' \<and>
         currentScaleRef w' = lerp (13 / 10) 1 (min delta (1 / 10) * 8) \<and>
         groupRef w' =
           Some (g\<lparr>o_scale := setScalar (lerp (13 / 10) 1 (min delta (1 / 10) * 8))\<rparr>))) \<and>
   (lerp (13 / 10) 1 (min delta (1 / 10) * 8) = 13 / 10 \<longleftrightarrow> min delta (1 / 10) = 0)"
proof -
  have 1: "loopRunning w \<longrightarrow>
      triggered (tick w) =
        triggered w @ [HeartAttackRelease ''C0'' ''4n'', BloodAttackRelease ''8n''] \<and>
      beatSignalRef (tick w)"
    by (simp add: tick_def loopCallback_def)
  have 2: "beatSignalRef w \<and> groupRef w = Some g \<longrightarrow>
      (\<exists>w'. useFrame delta elapsed w = Inr w' \<and> \<not> beatSignalRef w' \<and>
         currentScaleRef w' = lerp (13 / 10) 1 (min delta (1 / 10) * 8) \<and>
         groupRef w' =
           Some (g\<lparr>o_scale := setScalar (lerp (13 / 10) 1 (min delta (1 / 10) * 8))\<rparr>))"
  proof
    assume a: "beatSignalRef w \<and> groupRef w = Some g"
    obtain w' where r: "useFrame delta elapsed w = Inr w'" using useFrame_total by blast
    note f = useFrame_fields(1-3)[OF conjunct2[OF a] r]
    have "currentScaleRef w' = lerp (13 / 10) 1 (min delta (1 / 10) * 8)"
      using f(1) a by simp
    then show "\<exists>w'. useFrame delta elapsed w = Inr w' \<and> \<not> beatSignalRef w' \<and>
         currentScaleRef w' = lerp (13 / 10) 1 (min delta (1 / 10) * 8) \<and>
         groupRef w' =
           Some (g\<lparr>o_scale := setScalar (lerp (13 / 10) 1 (min delta (1 / 10) * 8))\<rparr>)"
      using r f(2,3) by auto
  qed
  have 3: "lerp (13 / 10) 1 (min delta (1 / 10) * 8) = 13 / 10 \<longleftrightarrow> min delta (1 / 10) = 0"
    by (simp add: lerp_def algebra_simps)
  show ?thesis using 1 2 3 by blast
qed

theorem beat_tick_then_frame_witness:
  "loopRunning (click mounted) \<and>
   triggered (tick (click mounted)) =
     [HeartAttackRelease ''C0'' ''4n'', BloodAttackRelease ''8n''] \<and>
   beatSignalRef (tick (click mounted)) \<and> groupRef (tick (click mounted)) \<noteq> None \<and>
   map_sum id currentScaleRef (useFrame (1 / 60) 0 (tick (click mounted))) = Inr (63 / 50) \<and>
   map_sum id beatSignalRef (useFrame (1 / 60) 0 (tick (click mounted))) = Inr False"
proof -
  have l: "loopRunning (click mounted)" by (simp add: loopRunning_def clicked_audio)
  have g: "groupRef (tick (click mounted)) =
      Some \<lparr>o_position = setScalar 0, o_rotation = setScalar 0, o_scale = setScalar 1\<rparr>"
    by (simp add: clicked_fields mounted_fields)
  have b: "beatSignalRef (tick (click mounted))" by (simp add: clicked_fields)
  note t = beat_tick_then_frame[where w = "tick (click mounted)" and delta = "1 / 60"
      and elapsed = 0 and g = "\<lparr>o_position = setScalar 0, o_rotation = setScalar 0,
        o_scale = setScalar 1\<rparr>"]
  have t1: "triggered (tick (click mounted)) =
      [HeartAttackRelease ''C0'' ''4n'', BloodAttackRelease ''8n'']"
    using beat_tick_then_frame[where w = "click mounted"] l clicked_audio(7) by simp
  from t b g obtain w' where r: "useFrame (1 / 60) 0 (tick (click mounted)) = Inr w'"
    and s: "\<not> beatSignalRef w'" "currentScaleRef w' = lerp (13 / 10) 1 (min (1 / 60) (1 / 10) * 8)"
    by blast
  have "currentScaleRef w' = 63 / 50" using s(2) by (simp add: lerp_def)
  then show ?thesis using l t1 b g r s(1) by simp
qed

text \<open>
  Claim C4. In the per-frame callback and in the timeline setup of \<^verbatim>\<open>src/App.tsx\<close> every
  read through the group, material, wireframe, distortion or reverb reference is behind a
  null test: whatever references are null, both run to their end and never dereference null.
\<close>

theorem no_null_dereference:
  "(\<exists>w'. useFrame delta elapsed w = Inr w') \<and> (\<exists>w'. useGSAP_callback w = Inr w')"
  using useFrame_total useGSAP_callback_result by blast

text \<open>
  Claim C5, as stated: the camera's position changes as the scroll position advances
  through the stages. It fails: at the end of each stage the camera is where it was at
  the start, at \<open>(0, 0, 5)\<close>.
\<close>

theorem camera_motion_counterexample:
  "cameraPosition (scrollTo linearMix 0 mounted) = \<lparr>vx = 0, vy = 0, vz = 5\<rparr> \<and>
   cameraPosition (scrollTo linearMix (1 / 3) mounted) = \<lparr>vx = 0, vy = 0, vz = 5\<rparr> \<and>
   cameraPosition (scrollTo linearMix (2 / 3) mounted) = \<lparr>vx = 0, vy = 0, vz = 5\<rparr> \<and>
   cameraPosition (scrollTo linearMix 1 mounted) = \<lparr>vx = 0, vy = 0, vz = 5\<rparr>"
  unfolding keyframe0[of linearMix, OF linearMix_ends] keyframe1[of linearMix, OF linearMix_ends]
    keyframe2[of linearMix, OF linearMix_ends] keyframe3[of linearMix, OF linearMix_ends]
  by (simp add: mounted_fields)

text \<open>
  Claim C5, amended. What moves with the colour, distortion and sound parameters is the
  mesh group, not the camera: the timeline puts the group at \<open>(0, 0, 0)\<close>,
  \<open>(0.5, 0, 1.5)\<close>, \<open>(-1.5, 0, 1.5)\<close> and \<open>(0, 0, 0)\<close> at the scroll fractions 0, 1/3, 2/3
  and 1, while the camera stays at \<open>(0, 0, 5)\<close> at every scroll fraction and after every
  run of the page.
\<close>

theorem group_moves_camera_fixed:
  assumes "\<And>a b. mix 0 a b = a" and "\<And>a b. mix 1 a b = b"
  shows "(\<forall>es w. run mix es initial = Inr w \<longrightarrow> cameraPosition w = \<lparr>vx = 0, vy = 0, vz = 5\<rparr>) \<and>
     cameraPosition (scrollTo mix p mounted) = \<lparr>vx = 0, vy = 0, vz = 5\<rparr> \<and>
     map_option o_position (groupRef (scrollTo mix 0 mounted)) =
       Some \<lparr>vx = 0, vy = 0, vz = 0\<rparr> \<and>
     map_option o_position (groupRef (scrollTo mix (1 / 3) mounted)) =
       Some \<lparr>vx = 1 / 2, vy = 0, vz = 3 / 2\<rparr> \<and>
     map_option o_position (groupRef (scrollTo mix (2 / 3) mounted)) =
       Some \<lparr>vx = - (3 / 2), vy = 0, vz = 3 / 2\<rparr> \<and>
     map_option o_position (groupRef (scrollTo mix 1 mounted)) =
       Some \<lparr>vx = 0, vy = 0, vz = 0\<rparr>"
proof -
  have 1: "\<forall>es w. run mix es initial = Inr w \<longrightarrow> cameraPosition w = \<lparr>vx = 0, vy = 0, vz = 5\<rparr>"
    using run_camera[of mix _ initial] by (auto simp: initial_def)
  have 2: "cameraPosition (scrollTo mix p mounted) = \<lparr>vx = 0, vy = 0, vz = 5\<rparr>"
    using untouched_fields[OF scrollTo_untouched, of mix p mounted] by (simp add: mounted_fields)
  have 3: "map_option o_position (groupRef (scrollTo mix 0 mounted)) =
       Some \<lparr>vx = 0, vy = 0, vz = 0\<rparr>"
    unfolding keyframe0[of mix, OF assms] by (simp add: mounted_fields setScalar_def)
  have 4: "map_option o_position (groupRef (scrollTo mix (1 / 3) mounted)) =
       Some \<lparr>vx = 1 / 2, vy = 0, vz = 3 / 2\<rparr>"
    unfolding keyframe1[of mix, OF assms] by simp
  have 5: "map_option o_position (groupRef (scrollTo mix (2 / 3) mounted)) =
       Some \<lparr>vx = - (3 / 2), vy = 0, vz = 3 / 2\<rparr>"
    unfolding keyframe2[of mix, OF assms] by simp
  have 6: "map_option o_position (groupRef (scrollTo mix 1 mounted)) =
       Some \<lparr>vx = 0, vy = 0, vz = 0\<rparr>"
    unfolding keyframe3[of mix, OF assms] by simp
  show ?thesis using 1 2 3 4 5 6 by blast
qed

theorem group_moves_camera_fixed_witness:
  "(\<forall>a b. linearMix 0 a b = a) \<and> (\<forall>a b. linearMix 1 a b = b) \<and>
   cameraPosition (scrollTo linearMix (1 / 2) mounted) = \<lparr>vx = 0, vy = 0, vz = 5\<rparr> \<and>
   map_option o_position (groupRef (scrollTo linearMix (1 / 3) mounted)) =
     Some \<lparr>vx = 1 / 2, vy = 0, vz = 3 / 2\<rparr> \<and>
   map_option o_position (groupRef (scrollTo linearMix (2 / 3) mounted)) =
     Some \<lparr>vx = - (3 / 2), vy = 0, vz = 3 / 2\<rparr>"
  using group_moves_camera_fixed[of linearMix "1 / 2", OF linearMix_ends] linearMix_ends
  by simp

text \<open>
  Claim C6, as stated: the timeline tweens exactly four values (a colour, an opacity, a
  distortion, a tempo) and no other parameter. It fails: the timeline also tweens the
  reverb wet and the audio distortion of \<^verbatim>\<open>audioParams\<close>, which the per-frame callback
  reads (lines 126-127), and the position of the group.
\<close>

theorem four_parameters_counterexample:
  "(AudioParams, ''reverbWet'') \<in> set (tweenedProps appTimeline) \<and>
   (AudioParams, ''distort'') \<in> set (tweenedProps appTimeline) \<and>
   (GroupPosition, ''x'') \<in> set (tweenedProps appTimeline) \<and>
   map_sum id (map_option rv_wet \<circ> reverb \<circ> audioSystem)
     (useFrame (1 / 60) 0 ((click mounted)\<lparr>audioParams :=
        \<lparr>ap_bpm = 30, ap_distort = 0, ap_reverbWet = 1\<rparr>\<rparr>)) = Inr (Some (Some 1))"
proof -
  let ?w = "(click mounted)\<lparr>audioParams := \<lparr>ap_bpm = 30, ap_distort = 0, ap_reverbWet = 1\<rparr>\<rparr>"
  have g: "groupRef ?w = Some \<lparr>o_position = setScalar 0, o_rotation = setScalar 0,
                             o_scale = setScalar 1\<rparr>"
    by (simp add: clicked_audio mounted_fields)
  obtain w' where r: "useFrame (1 / 60) 0 ?w = Inr w'" using useFrame_total by blast
  have "map_option rv_wet (reverb (audioSystem w')) = Some (Some 1)"
    unfolding useFrame_fields(7)[OF g r] by (simp add: clicked_audio)
  then show ?thesis using r by (simp add: appTimeline_props)
qed

text \<open>
  Claim C6, amended. The parameters that the timeline tweens and the per-frame callback
  reads are six: the colour, opacity and distortion of \<^verbatim>\<open>visualParams\<close> and the tempo,
  distortion and reverb wet of \<^verbatim>\<open>audioParams\<close>; once the page is mounted and started a
  frame writes each of them to the material, the transport, the distortion node or the
  reverb. Besides these the timeline tweens only the group's position (x, z) and
  rotation (y) and the wireframe's scale (x, y, z).
\<close>

theorem tweened_parameters:
  "set (tweenedProps appTimeline) =
     {(VisualParams, ''color''), (VisualParams, ''opacity''), (VisualParams, ''distort''),
      (AudioParams, ''bpm''), (AudioParams, ''distort''), (AudioParams, ''reverbWet''),
      (GroupPosition, ''x''), (GroupPosition, ''z''), (GroupRotation, ''y''),
      (WireframeScale, ''x''), (WireframeScale, ''y''), (WireframeScale, ''z'')} \<and>
   (\<exists>w'. useFrame delta elapsed ((click mounted)\<lparr>visualParams := v, audioParams := a\<rparr>) = Inr w' \<and>
      materialRef w' = Some \<lparr>m_color = vp_color v, m_opacity = vp_opacity v,
                              m_distort = vp_distort v, m_speed = ap_bpm a / 30\<rparr> \<and>
      t_bpm (transport w') = ap_bpm a \<and>
      distortion (audioSystem w') = Some (ap_distort a) \<and>
      map_option rv_wet (reverb (audioSystem w')) = Some (Some (ap_reverbWet a)))"
proof -
  let ?w = "(click mounted)\<lparr>visualParams := v, audioParams := a\<rparr>"
  have 1: "set (tweenedProps appTimeline) =
     {(VisualParams, ''color''), (VisualParams, ''opacity''), (VisualParams, ''distort''),
      (AudioParams, ''bpm''), (AudioParams, ''distort''), (AudioParams, ''reverbWet''),
      (GroupPosition, ''x''), (GroupPosition, ''z''), (GroupRotation, ''y''),
      (WireframeScale, ''x''), (WireframeScale, ''y''), (WireframeScale, ''z'')}"
    unfolding appTimeline_props by auto
  have g: "groupRef ?w = Some \<lparr>o_position = setScalar 0, o_rotation = setScalar 0,
                             o_scale = setScalar 1\<rparr>"
    by (simp add: clicked_audio mounted_fields)
  obtain w' where r: "useFrame delta elapsed ?w = Inr w'" using useFrame_total by blast
  note f = useFrame_fields[OF g r]
  have "materialRef w' = Some \<lparr>m_color = vp_color v, m_opacity = vp_opacity v,
                              m_distort = vp_distort v, m_speed = ap_bpm a / 30\<rparr>"
    unfolding f(4) by (simp add: clicked_audio mounted_fields)
  moreover have "t_bpm (transport w') = ap_bpm a"
    unfolding f(6) by (simp add: clicked_audio)
  moreover have "distortion (audioSystem w') = Some (ap_distort a)"
    "map_option rv_wet (reverb (audioSystem w')) = Some (Some (ap_reverbWet a))"
    unfolding f(7) by (simp_all add: clicked_audio)
  ultimately show ?thesis using 1 r by blast
qed

text \<open>
  Claim C7. A click is the only event that starts audio: after a run of the page without
  a click the transport is stopped, the audio context is not running, nothing was
  triggered and the overlay is still rendered. A click on the rendered overlay runs the
  audio initialisation (the synth nodes are created and connected, the transport is
  started at 60 bpm, the quarter-note loop is started) and marks the page as started;
  from then on the overlay is never rendered again.
\<close>

theorem click_starts_audio:
  assumes "run mix es initial = Inr w"
  shows "(Click \<notin> set es \<longrightarrow>
            \<not> t_started (transport w) \<and> \<not> contextRunning w \<and> triggered w = [] \<and>
            overlayRendered w) \<and>
         (overlayRendered w \<longrightarrow>
            audioSystem (click w) =
              \<lparr>heart = Some \<lparr>ms_volume = 0, ms_pitchDecay = 1 / 10, ms_octaves = 3\<rparr>,
               blood = Some \<lparr>ns_volume = - 15, ns_noise = ''brown''\<rparr>,
               distortion = Some 0,
               reverb = Some \<lparr>rv_decay = 5, rv_preDelay = 1 / 10, rv_wet = Some (3 / 10)\<rparr>,
               loop = Some \<lparr>lp_interval = ''4n'', lp_started = True\<rparr>,
               isReady = True\<rparr> \<and>
            connections (click w) = connections w @
               [(''compressor'', ''destination''), (''reverb'', ''compressor''),
                (''distortion'', ''reverb''), (''lowPass'', ''distortion''),
                (''heart'', ''lowPass''), (''blood'', ''lowPass'')] \<and>
            transport (click w) = \<lparr>t_bpm = 60, t_started = True\<rparr> \<and>
            contextRunning (click w) \<and> loopRunning (click w) \<and>
            started (click w) \<and> \<not> overlayRendered (click w) \<and>
            (\<forall>es' w'. run mix es' (click w) = Inr w' \<longrightarrow> \<not> overlayRendered w'))"
proof -
  have 1: "Click \<notin> set es \<longrightarrow>
            \<not> t_started (transport w) \<and> \<not> contextRunning w \<and> triggered w = [] \<and>
            overlayRendered w"
    using run_silent[OF assms] by (auto simp: audioSilent_def overlayRendered_def initial_def)
  have 2: "overlayRendered w \<longrightarrow>
            audioSystem (click w) =
              \<lparr>heart = Some \<lparr>ms_volume = 0, ms_pitchDecay = 1 / 10, ms_octaves = 3\<rparr>,
               blood = Some \<lparr>ns_volume = - 15, ns_noise = ''brown''\<rparr>,
               distortion = Some 0,
               reverb = Some \<lparr>rv_decay = 5, rv_preDelay = 1 / 10, rv_wet = Some (3 / 10)\<rparr>,
               loop = Some \<lparr>lp_interval = ''4n'', lp_started = True\<rparr>,
               isReady = True\<rparr> \<and>
            connections (click w) = connections w @
               [(''compressor'', ''destination''), (''reverb'', ''compressor''),
                (''distortion'', ''reverb''), (''lowPass'', ''distortion''),
                (''heart'', ''lowPass''), (''blood'', ''lowPass'')] \<and>
            transport (click w) = \<lparr>t_bpm = 60, t_started = True\<rparr> \<and>
            contextRunning (click w) \<and> loopRunning (click w) \<and>
            started (click w) \<and> \<not> overlayRendered (click w) \<and>
            (\<forall>es' w'. run mix es' (click w) = Inr w' \<longrightarrow> \<not> overlayRendered w')"
  proof
    assume o: "overlayRendered w"
    then have ns: "\<not> started w" by (simp add: overlayRendered_def)
    then have nr: "\<not> isReady (audioSystem w)" using run_ready_started[OF assms] by blast
    have c: "click w = (initAudio w)\<lparr>started := True\<rparr>"
      using o by (simp add: click_def handleStart_def)
    have s: "started (click w)" by (simp add: c)
    have later: "\<forall>es' w'. run mix es' (click w) = Inr w' \<longrightarrow> \<not> overlayRendered w'"
      using run_started[OF _ s] by (auto simp: overlayRendered_def)
    show "audioSystem (click w) =
              \<lparr>heart = Some \<lparr>ms_volume = 0, ms_pitchDecay = 1 / 10, ms_octaves = 3\<rparr>,
               blood = Some \<lparr>ns_volume = - 15, ns_noise = ''brown''\<rparr>,
               distortion = Some 0,
               reverb = Some \<lparr>rv_decay = 5, rv_preDelay = 1 / 10, rv_wet = Some (3 / 10)\<rparr>,
               loop = Some \<lparr>lp_interval = ''4n'', lp_started = True\<rparr>,
               isReady = True\<rparr> \<and>
            connections (click w) = connections w @
               [(''compressor'', ''destination''), (''reverb'', ''compressor''),
                (''distortion'', ''reverb''), (''lowPass'', ''distortion''),
                (''heart'', ''lowPass''), (''blood'', ''lowPass'')] \<and>
            transport (click w) = \<lparr>t_bpm = 60, t_started = True\<rparr> \<and>
            contextRunning (click w) \<and> loopRunning (click w) \<and>
            started (click w) \<and> \<not> overlayRendered (click w) \<and>
            (\<forall>es' w'. run mix es' (click w) = Inr w' \<longrightarrow> \<not> overlayRendered w')"
      using later nr by (simp add: c initAudio_def loopRunning_def overlayRendered_def)
  qed
  show ?thesis using 1 2 by blast
qed

theorem click_starts_audio_witness:
  "run linearMix [Mount] initial = Inr mounted \<and> Click \<notin> set [Mount] \<and>
   overlayRendered mounted \<and> \<not> t_started (transport mounted) \<and>
   transport (click mounted) = \<lparr>t_bpm = 60, t_started = True\<rparr> \<and>
   loop (audioSystem (click mounted)) = Some \<lparr>lp_interval = ''4n'', lp_started = True\<rparr> \<and>
   \<not> overlayRendered (click mounted) \<and>
   map_sum id overlayRendered (run linearMix [Frame (1 / 60) 0, Click] (click mounted))
     = Inr False"
proof -
  have r: "run linearMix [Mount] initial = Inr mounted"
    by (simp add: mount_initial)
  have o: "overlayRendered mounted" by (simp add: overlayRendered_def mounted_fields)
  obtain v where v: "run linearMix [Frame (1 / 60) 0, Click] (click mounted) = Inr v"
    using run_total by blast
  note t = click_starts_audio[OF r]
  have "\<not> overlayRendered v" using t o v by blast
  moreover have "\<not> t_started (transport mounted)" using t by simp
  moreover have "transport (click mounted) = \<lparr>t_bpm = 60, t_started = True\<rparr>"
    "loop (audioSystem (click mounted)) = Some \<lparr>lp_interval = ''4n'', lp_started = True\<rparr>"
    "\<not> overlayRendered (click mounted)"
    using t o by simp_all
  ultimately show ?thesis using r o v by simp
qed

text \<open>
  Claim C8. The heartbeat scale value kept by the per-frame callback stays in the closed
  interval from 1 to 1.3 after every run of the page from its initial state in which no
  frame has a negative time step: it starts at 1, and a frame that finds the group
  attached takes 1.3 on a beat, or else the current value, and moves it toward 1 by the
  factor \<open>8 * min delta 0.1\<close>, which is at most 0.8.
\<close>

theorem heartbeat_scale_in_range:
  assumes "list_all validEvent es" and "run mix es initial = Inr w"
  shows "1 \<le> currentScaleRef w \<and> currentScaleRef w \<le> 13 / 10 \<and>
     (\<forall>delta elapsed g w'. groupRef w = Some g \<and> useFrame delta elapsed w = Inr w' \<longrightarrow>
        currentScaleRef w' =
          lerp (if beatSignalRef w then 13 / 10 else currentScaleRef w) 1
            (min delta (1 / 10) * 8) \<and>
        min delta (1 / 10) * 8 \<le> 8 / 10)"
proof -
  have range: "1 \<le> currentScaleRef w \<and> currentScaleRef w \<le> 13 / 10"
  proof (rule run_invariant[OF assms(2), where Q = validEvent])
    show "1 \<le> currentScaleRef initial \<and> currentScaleRef initial \<le> 13 / 10"
      by (simp add: initial_def)
    show "list_all validEvent es" by (rule assms(1))
    fix ev v v'
    assume "validEvent ev" and "1 \<le> currentScaleRef v \<and> currentScaleRef v \<le> 13 / 10"
      and "step mix ev v = Inr v'"
    then show "1 \<le> currentScaleRef v' \<and> currentScaleRef v' \<le> 13 / 10"
      by (rule step_scale_range)
  qed
  have frame: "\<forall>delta elapsed g w'. groupRef w = Some g \<and> useFrame delta elapsed w = Inr w' \<longrightarrow>
        currentScaleRef w' =
          lerp (if beatSignalRef w then 13 / 10 else currentScaleRef w) 1
            (min delta (1 / 10) * 8) \<and>
        min delta (1 / 10) * 8 \<le> 8 / 10"
    using useFrame_fields(1) by auto
  show ?thesis using range frame by blast
qed

theorem heartbeat_scale_in_range_witness:
  "list_all validEvent [Mount, Click, Tick, Frame (1 / 60) 0] \<and>
   map_sum id currentScaleRef (run linearMix [Mount, Click, Tick, Frame (1 / 60) 0] initial)
     = Inr (63 / 50) \<and> (1::real) \<le> 63 / 50 \<and> (63 / 50 :: real) \<le> 13 / 10"
proof -
  have v: "list_all validEvent [Mount, Click, Tick, Frame (1 / 60) 0]" by simp
  obtain w where w: "run linearMix [Mount, Click, Tick, Frame (1 / 60) 0] initial = Inr w"
    using run_total by blast
  have g: "groupRef (tick (click mounted)) =
      Some \<lparr>o_position = setScalar 0, o_rotation = setScalar 0, o_scale = setScalar 1\<rparr>"
    by (simp add: clicked_fields mounted_fields)
  have "currentScaleRef w = 63 / 50"
    using useFrame_fields(1)[OF g w[unfolded beat_frame_run]]
    by (simp add: clicked_fields lerp_def)
  then show ?thesis using heartbeat_scale_in_range[OF v w] v w by simp
qed

text \<open>
  Claim C9. Audio initialisation is idempotent: once \<^verbatim>\<open>isReady\<close> is true a call of
  \<^verbatim>\<open>initAudio\<close> changes nothing (the audio system record, the transport and the
  connections included), and calling it twice is the same as calling it once.
\<close>

theorem initAudio_idempotent:
  "(isReady (audioSystem w) \<longrightarrow> initAudio w = w) \<and> initAudio (initAudio w) = initAudio w"
  by (simp add: initAudio_def)

theorem initAudio_idempotent_witness:
  "isReady (audioSystem (click mounted)) \<and> initAudio (click mounted) = click mounted"
  using initAudio_idempotent[of "click mounted"] by (simp add: clicked_fields)

text \<open>
  Claim C10. On every frame of a run of the page the material's speed becomes
  \<open>bpm / 30\<close>, whether or not the audio system is ready; a frame in which the audio
  system is not ready leaves the transport and the audio system (tempo, distortion,
  reverb wet) as they are; so after a run without a click the audio system is not ready
  and the transport, the audio system, the connections and the triggered notes are
  those of the initial state, while a frame still sets the speed from the tweened tempo.
\<close>

theorem speed_tracks_tempo_audio_gated:
  assumes "run mix es initial = Inr w"
  shows "(\<forall>m. materialRef w = Some m \<longrightarrow>
            (\<exists>w'. useFrame delta elapsed w = Inr w' \<and>
               map_option m_speed (materialRef w') = Some (ap_bpm (audioParams w) / 30))) \<and>
         (\<forall>u::world. \<not> isReady (audioSystem u) \<longrightarrow>
            (\<exists>u'. useFrame delta elapsed u = Inr u' \<and> transport u' = transport u \<and>
               audioSystem u' = audioSystem u)) \<and>
         (Click \<notin> set es \<longrightarrow>
            \<not> isReady (audioSystem w) \<and> transport w = transport initial \<and>
            audioSystem w = audioSystem initial \<and> connections w = [] \<and> triggered w = [])"
proof -
  have 1: "\<forall>m. materialRef w = Some m \<longrightarrow>
            (\<exists>w'. useFrame delta elapsed w = Inr w' \<and>
               map_option m_speed (materialRef w') = Some (ap_bpm (audioParams w) / 30))"
  proof (intro allI impI)
    fix m assume m: "materialRef w = Some m"
    obtain g where g: "groupRef w = Some g" using run_refs[OF assms] m by auto
    obtain w' where r: "useFrame delta elapsed w = Inr w'" using useFrame_total by blast
    have "map_option m_speed (materialRef w') = Some (ap_bpm (audioParams w) / 30)"
      unfolding useFrame_fields(4)[OF g r] using m by simp
    then show "\<exists>w'. useFrame delta elapsed w = Inr w' \<and>
               map_option m_speed (materialRef w') = Some (ap_bpm (audioParams w) / 30)"
      using r by blast
  qed
  have 2: "\<forall>u::world. \<not> isReady (audioSystem u) \<longrightarrow>
            (\<exists>u'. useFrame delta elapsed u = Inr u' \<and> transport u' = transport u \<and>
               audioSystem u' = audioSystem u)"
  proof (intro allI impI)
    fix u :: world assume n: "\<not> isReady (audioSystem u)"
    obtain u' where r: "useFrame delta elapsed u = Inr u'" using useFrame_total by blast
    have "transport u' = transport u \<and> audioSystem u' = audioSystem u"
    proof (cases "groupRef u")
      case None
      then show ?thesis using r by (simp add: useFrame_unmounted)
    next
      case (Some k)
      show ?thesis using useFrame_fields(6,7)[OF Some r] n by simp
    qed
    then show "\<exists>u'. useFrame delta elapsed u = Inr u' \<and> transport u' = transport u \<and>
               audioSystem u' = audioSystem u"
      using r by blast
  qed
  have 3: "Click \<notin> set es \<longrightarrow>
            \<not> isReady (audioSystem w) \<and> transport w = transport initial \<and>
            audioSystem w = audioSystem initial \<and> connections w = [] \<and> triggered w = []"
    using run_silent[OF assms] by (auto simp: audioSilent_def initial_def)
  show ?thesis using 1 2 3 by blast
qed

theorem speed_tracks_tempo_audio_gated_witness:
  "run linearMix [Mount, Scroll (1 / 3)] initial = Inr (scrollTo linearMix (1 / 3) mounted) \<and>
   Click \<notin> set [Mount, Scroll (1 / 3)] \<and>
   materialRef (scrollTo linearMix (1 / 3) mounted) \<noteq> None \<and>
   isReady (audioSystem (scrollTo linearMix (1 / 3) mounted)) = False \<and>
   map_sum id (map_option m_speed \<circ> materialRef)
     (useFrame (1 / 60) 0 (scrollTo linearMix (1 / 3) mounted)) = Inr (Some (10 / 3)) \<and>
   map_sum id transport
     (useFrame (1 / 60) 0 (scrollTo linearMix (1 / 3) mounted)) = Inr (transport initial) \<and>
   audioSystem (scrollTo linearMix (1 / 3) mounted) = audioSystem initial"
proof -
  let ?w = "scrollTo linearMix (1 / 3) mounted"
  have run: "run linearMix [Mount, Scroll (1 / 3)] initial = Inr ?w"
    by (simp add: mount_initial)
  have k: "materialRef ?w = Some \<lparr>m_color = Css ''#ffffff'', m_opacity = 1 / 2,
                                   m_distort = 3 / 10, m_speed = 2\<rparr>"
    "ap_bpm (audioParams ?w) = 100" "transport ?w = transport initial"
    unfolding keyframe1[of linearMix, OF linearMix_ends] by (simp_all add: mounted_fields)
  note t = speed_tracks_tempo_audio_gated[OF run, of "1 / 60" 0]
  have c: "Click \<notin> set [Mount, Scroll (1 / 3)]" by simp
  have s: "\<not> isReady (audioSystem ?w)" "audioSystem ?w = audioSystem initial"
    using t c by blast+
  from t k(1) obtain w1 where w1: "useFrame (1 / 60) 0 ?w = Inr w1"
    "map_option m_speed (materialRef w1) = Some (ap_bpm (audioParams ?w) / 30)" by blast
  from t s(1) obtain w2 where w2: "useFrame (1 / 60) 0 ?w = Inr w2" "transport w2 = transport ?w"
    by blast
  show ?thesis using run c k s w1 w2 by simp
qed

end
